theory Spec2Isabelle
  imports Complex_Main
begin

section \<open>Floating-point values\<close>

text \<open>
  The arrays of \<^verbatim>\<open>tuning_curves.py\<close> hold IEEE doubles. The functions below keep what
  the module's behaviour depends on: the special values (not-a-number and the two
  infinities) and how division, multiplication, addition and the logarithm produce and
  propagate them. A finite value is a real number: rounding and overflow are left out,
  and so is the sign of zero (every divisor that can be zero here is a count or a sum of
  non-negative terms, a positive zero).
\<close>

datatype fval = Fin real | PInf | NInf | NaN

fun isnan :: "fval \<Rightarrow> bool" where
  "isnan NaN = True"
| "isnan _ = False"

fun isinf :: "fval \<Rightarrow> bool" where
  "isinf PInf = True"
| "isinf NInf = True"
| "isinf _ = False"

fun isfinite :: "fval \<Rightarrow> bool" where
  "isfinite (Fin _) = True"
| "isfinite _ = False"

fun fadd :: "fval \<Rightarrow> fval \<Rightarrow> fval" where
  "fadd NaN _ = NaN"
| "fadd _ NaN = NaN"
| "fadd (Fin a) (Fin b) = Fin (a + b)"
| "fadd PInf NInf = NaN"
| "fadd NInf PInf = NaN"
| "fadd PInf _ = PInf"
| "fadd NInf _ = NInf"
| "fadd _ PInf = PInf"
| "fadd _ NInf = NInf"

fun fneg :: "fval \<Rightarrow> fval" where
  "fneg (Fin a) = Fin (- a)"
| "fneg PInf = NInf"
| "fneg NInf = PInf"
| "fneg NaN = NaN"

definition fsub :: "fval \<Rightarrow> fval \<Rightarrow> fval" where
  "fsub a b = fadd a (fneg b)"

fun fsign :: "real \<Rightarrow> fval \<Rightarrow> fval" where
  "fsign a PInf = (if a = 0 then NaN else if 0 < a then PInf else NInf)"
| "fsign a NInf = (if a = 0 then NaN else if 0 < a then NInf else PInf)"
| "fsign a _ = NaN"

fun fmul :: "fval \<Rightarrow> fval \<Rightarrow> fval" where
  "fmul NaN _ = NaN"
| "fmul _ NaN = NaN"
| "fmul (Fin a) (Fin b) = Fin (a * b)"
| "fmul (Fin a) b = fsign a b"
| "fmul a (Fin b) = fsign b a"
| "fmul PInf b = b"
| "fmul NInf b = fneg b"

fun fdiv :: "fval \<Rightarrow> fval \<Rightarrow> fval" where
  "fdiv NaN _ = NaN"
| "fdiv _ NaN = NaN"
| "fdiv (Fin a) (Fin b) =
     (if b \<noteq> 0 then Fin (a / b)
      else if a = 0 then NaN else if 0 < a then PInf else NInf)"
| "fdiv (Fin a) _ = Fin 0"
| "fdiv PInf (Fin b) = (if 0 \<le> b then PInf else NInf)"
| "fdiv NInf (Fin b) = (if 0 \<le> b then NInf else PInf)"
| "fdiv _ _ = NaN"

text \<open>\<^verbatim>\<open>np.log2\<close>: minus infinity at zero, not-a-number below zero.\<close>

fun flog2 :: "fval \<Rightarrow> fval" where
  "flog2 (Fin a) = (if 0 < a then Fin (log 2 a) else if a = 0 then NInf else NaN)"
| "flog2 PInf = PInf"
| "flog2 NInf = NaN"
| "flog2 NaN = NaN"

text \<open>
  \<^verbatim>\<open>np.sum\<close> down one axis. With exact finite values the order of the additions does
  not change the result; the sum of no elements is zero.
\<close>

fun fsum :: "fval list \<Rightarrow> fval" where
  "fsum [] = Fin 0"
| "fsum (x # xs) = fadd x (fsum xs)"

text \<open>The comparison \<^verbatim>\<open>a > b\<close> of two doubles: false when either is not-a-number.\<close>

fun fgreater :: "fval \<Rightarrow> fval \<Rightarrow> bool" where
  "fgreater NaN _ = False"
| "fgreater _ NaN = False"
| "fgreater (Fin a) (Fin b) = (b < a)"
| "fgreater PInf PInf = False"
| "fgreater PInf _ = True"
| "fgreater NInf _ = False"
| "fgreater (Fin a) NInf = True"
| "fgreater (Fin a) PInf = False"

section \<open>The numpy and pandas operations the module calls\<close>

text \<open>
  Exceptions are values. \<open>RuntimeError\<close> is the module's own
  \<^verbatim>\<open>RuntimeError("Variable is not 2 dimensional.")\<close> (the specification calls it
  InvalidDimension); \<open>ValueError\<close> and \<open>IndexError\<close> are raised inside numpy and pandas.
\<close>

datatype error = RuntimeError | ValueError | IndexError

text \<open>
  \<^verbatim>\<open>np.linspace(start, stop, num)\<close>: a negative \<open>num\<close> raises; otherwise \<open>num\<close>
  samples \<open>i * step + start\<close> with \<open>step = (stop - start) / (num - 1)\<close>, the last one
  overwritten by \<open>stop\<close> when \<open>num > 1\<close>. When \<open>num - 1\<close> is not positive the step is
  undefined and the samples are \<open>i * (stop - start) + start\<close>; when the step is zero numpy
  computes \<open>(i / (num - 1)) * (stop - start)\<close> instead.
\<close>

definition linspace :: "fval \<Rightarrow> fval \<Rightarrow> int \<Rightarrow> error + fval list" where
  "linspace start stop num =
     (if num < 0 then Inl ValueError
      else
        let n = nat num;
            d = real n - 1;
            delta = fsub stop start;
            step = fdiv delta (Fin d);
            y = (\<lambda>i. if 0 < d
                      then (if step = Fin 0 then fmul (fdiv (Fin (real i)) (Fin d)) delta
                            else fmul (Fin (real i)) step)
                      else fmul (Fin (real i)) delta)
        in Inr (map (\<lambda>i. if 1 < n \<and> Suc i = n then stop else fadd (y i) start) [0..<n]))"

text \<open>
  \<^verbatim>\<open>np.min(feature)\<close> and \<^verbatim>\<open>np.max(feature)\<close> on a pandas series: the extreme sample,
  and not-a-number for a series with no sample.
\<close>

fun np_min :: "real list \<Rightarrow> fval" where
  "np_min [] = NaN"
| "np_min (x # xs) = Fin (fold min xs x)"

fun np_max :: "real list \<Rightarrow> fval" where
  "np_max [] = NaN"
| "np_max (x # xs) = Fin (fold max xs x)"

text \<open>
  \<^verbatim>\<open>np.diff\<close> on an integer array and on a float array, and the bin centres
  \<^verbatim>\<open>bins[0:-1] + np.diff(bins)/2\<close>.
\<close>

fun diff :: "int list \<Rightarrow> int list" where
  "diff (x # y # zs) = (y - x) # diff (y # zs)"
| "diff _ = []"

fun fdiff :: "fval list \<Rightarrow> fval list" where
  "fdiff (x # y # zs) = fsub y x # fdiff (y # zs)"
| "fdiff _ = []"

definition bin_centers :: "fval list \<Rightarrow> fval list" where
  "bin_centers bins =
     map (\<lambda>(b, d). fadd b (fdiv d (Fin 2))) (zip (take (length bins - 1) bins) (fdiff bins))"

text \<open>
  \<^verbatim>\<open>np.histogram(a, bins)\<close> with an array of edges. The edges must not decrease
  (\<^verbatim>\<open>np.any(bin_edges[:-1] > bin_edges[1:])\<close> raises). The counts are the differences of
  a cumulative histogram: for every edge but the last the number of samples sorted
  strictly before it, for the last edge the number of samples sorted before or at it
  (\<^verbatim>\<open>_search_sorted_inclusive\<close>), so the last bin is closed on the right. In numpy's sort
  order not-a-number comes last.
\<close>

fun sorts_before :: "real \<Rightarrow> fval \<Rightarrow> bool" where
  "sorts_before a (Fin e) = (a < e)"
| "sorts_before a NInf = False"
| "sorts_before a _ = True"

fun sorts_upto :: "real \<Rightarrow> fval \<Rightarrow> bool" where
  "sorts_upto a (Fin e) = (a \<le> e)"
| "sorts_upto a NInf = False"
| "sorts_upto a _ = True"

definition searchsorted_left :: "real list \<Rightarrow> fval \<Rightarrow> int" where
  "searchsorted_left a v = int (length (filter (\<lambda>x. sorts_before x v) a))"

definition searchsorted_right :: "real list \<Rightarrow> fval \<Rightarrow> int" where
  "searchsorted_right a v = int (length (filter (\<lambda>x. sorts_upto x v) a))"

definition search_sorted_inclusive :: "real list \<Rightarrow> fval list \<Rightarrow> int list" where
  "search_sorted_inclusive a v =
     map (searchsorted_left a) (take (length v - 1) v)
     @ map (searchsorted_right a) (drop (length v - 1) v)"

fun decreases :: "fval list \<Rightarrow> bool" where
  "decreases (x # y # zs) = (fgreater x y \<or> decreases (y # zs))"
| "decreases _ = False"

definition histogram :: "real list \<Rightarrow> fval list \<Rightarrow> error + int list" where
  "histogram a bins =
     (if decreases bins then Inl ValueError
      else Inr (diff (search_sorted_inclusive a bins)))"

section \<open>Features, interval sets and groups\<close>

text \<open>
  A one-dimensional feature (\<^verbatim>\<open>Tsd\<close>) is a list of samples, each a timestamp and a
  value, with the attribute \<^verbatim>\<open>rate\<close>, a finite number of samples per unit of time.
  \<^verbatim>\<open>feature.values\<close> is the list of the values.
\<close>

record feature =
  samples :: "(real \<times> real) list"
  rate :: real

definition fvalues :: "feature \<Rightarrow> real list" where
  "fvalues f = map snd (samples f)"

type_synonym interval_set = "(real \<times> real) list"

text \<open>
  Modelled from the spec: \<^verbatim>\<open>feature.restrict(ep)\<close> is a method of the time-series
  container, which is not part of the module. An interval set is a list of intervals
  \<open>[start, end)\<close>, and restricting a series keeps the samples whose timestamp lies in
  one of them, in their order.
\<close>

definition in_ep :: "interval_set \<Rightarrow> real \<Rightarrow> bool" where
  "in_ep ep t = list_ex (\<lambda>(s, e). s \<le> t \<and> t < e) ep"

definition restrict :: "feature \<Rightarrow> interval_set \<Rightarrow> feature" where
  "restrict f ep = f\<lparr>samples := filter (\<lambda>(t, v). in_ep ep t) (samples f)\<rparr>"

text \<open>
  A group (\<^verbatim>\<open>TsGroup\<close>) is a dictionary from identifiers to series: an association list
  in the group's iteration order.
\<close>

text \<open>
  Modelled from the spec: \<^verbatim>\<open>value_from\<close>, the aligner, is a method of the time-series
  container, which is not part of the module. The tuning-curve functions take the
  aligner of one series as their first argument \<open>vf\<close>: \<open>vf s feature ep\<close> is the list of
  the values of \<^verbatim>\<open>s.value_from(feature, ep)\<close>. \<^verbatim>\<open>group.value_from(feature, ep)\<close>
  aligns every member and keeps the identifiers and their order.
\<close>

definition group_value_from ::
  "('s \<Rightarrow> feature \<Rightarrow> interval_set \<Rightarrow> real list) \<Rightarrow> ('k \<times> 's) list \<Rightarrow> feature \<Rightarrow> interval_set
     \<Rightarrow> ('k \<times> real list) list" where
  "group_value_from vf grp f ep = map (\<lambda>(k, s). (k, vf s f ep)) grp"

text \<open>
  Modelled from the spec: an aligner for series of event times. For every event time
  inside the interval set it gives the value of the sample of the restricted feature
  that is closest in time (the earliest one among equally close samples); an event has no
  value when the restricted feature has no sample.
\<close>

fun closest :: "(real \<times> real) list \<Rightarrow> real \<Rightarrow> (real \<times> real) option" where
  "closest [] t = None"
| "closest (s # ss) t =
     (case closest ss t of
        None \<Rightarrow> Some s
      | Some s' \<Rightarrow> if \<bar>fst s - t\<bar> \<le> \<bar>fst s' - t\<bar> then Some s else Some s')"

definition value_from_closest :: "real list \<Rightarrow> feature \<Rightarrow> interval_set \<Rightarrow> real list" where
  "value_from_closest ts f ep =
     concat (map (\<lambda>t. case closest (samples (restrict f ep)) t of
                          None \<Rightarrow> [] | Some s \<Rightarrow> [snd s])
                 (filter (in_ep ep) ts))"

section \<open>Tables\<close>

text \<open>
  A \<^verbatim>\<open>pandas.DataFrame\<close>: the row index, the column labels in their order, and the cells
  of each column. \<^verbatim>\<open>pd.DataFrame(index = idx, columns = cols)\<close> is a table whose cells
  are all not-a-number. \<^verbatim>\<open>df[k] = c\<close> replaces the column \<open>k\<close> where it stands, or adds
  it after the last column; pandas raises when \<open>c\<close> has not one cell per row.
\<close>

record 'k dataframe =
  index :: "fval list"
  columns :: "'k list"
  cells :: "'k \<Rightarrow> fval list"

definition DataFrame :: "fval list \<Rightarrow> 'k list \<Rightarrow> 'k dataframe" where
  "DataFrame idx cols =
     \<lparr>index = idx, columns = cols, cells = (\<lambda>k. replicate (length idx) NaN)\<rparr>"

definition setitem :: "'k dataframe \<Rightarrow> 'k \<Rightarrow> fval list \<Rightarrow> error + 'k dataframe" where
  "setitem df k c =
     (if length c \<noteq> length (index df) then Inl ValueError
      else Inr (df\<lparr>columns := (if k \<in> set (columns df) then columns df else columns df @ [k]),
                  cells := (cells df)(k := c)\<rparr>))"

section \<open>One-dimensional tuning curves\<close>

text \<open>
  The bin edges of \<^verbatim>\<open>compute_1d_on_group\<close> and of
  \<^verbatim>\<open>compute_mutual_information_1d\<close>: over the extreme samples of the whole feature, or
  over the bounds \<^verbatim>\<open>minmax[0]\<close>, \<^verbatim>\<open>minmax[1]\<close> of the caller.
\<close>

definition edges_1d :: "feature \<Rightarrow> int \<Rightarrow> (real \<times> real) option \<Rightarrow> error + fval list" where
  "edges_1d f nb_bins minmax =
     (case minmax of
        None \<Rightarrow> linspace (np_min (fvalues f)) (np_max (fvalues f)) nb_bins
      | Some mm \<Rightarrow> linspace (Fin (fst mm)) (Fin (snd mm)) nb_bins)"

text \<open>
  The body of the loop over the members: the histogram of the aligned values, divided
  cell by cell by the occupancy (two integer arrays, a float result), the not-a-number
  cells set to zero, and the column stored twice, the second time multiplied by the
  rate.
\<close>

definition normalise :: "int list \<Rightarrow> int list \<Rightarrow> fval list" where
  "normalise count occupancy =
     map (\<lambda>c. if isnan c then Fin 0 else c)
       (map (\<lambda>(c, n). fdiv (Fin (real_of_int c)) (Fin (real_of_int n))) (zip count occupancy))"

fun tuning_loop ::
  "fval list \<Rightarrow> int list \<Rightarrow> real \<Rightarrow> ('k \<times> real list) list \<Rightarrow> 'k dataframe \<Rightarrow> error + 'k dataframe" where
  "tuning_loop bins occupancy r [] df = Inr df"
| "tuning_loop bins occupancy r ((k, a) # gv) df =
     (case histogram a bins of
        Inl e \<Rightarrow> Inl e
      | Inr count \<Rightarrow>
          (case setitem df k (normalise count occupancy) of
             Inl e \<Rightarrow> Inl e
           | Inr df1 \<Rightarrow>
               (case setitem df1 k (map (\<lambda>c. fmul c (Fin r)) (normalise count occupancy)) of
                  Inl e \<Rightarrow> Inl e
                | Inr df2 \<Rightarrow> tuning_loop bins occupancy r gv df2)))"

text \<open>
  The computation of \<^verbatim>\<open>compute_1d_tuning_curves\<close> from line 39 on, on a group that is a
  \<^verbatim>\<open>TsGroup\<close>.
\<close>

definition compute_1d_on_group ::
  "('s \<Rightarrow> feature \<Rightarrow> interval_set \<Rightarrow> real list) \<Rightarrow> ('k \<times> 's) list \<Rightarrow> feature \<Rightarrow> interval_set
     \<Rightarrow> int \<Rightarrow> (real \<times> real) option \<Rightarrow> error + 'k dataframe" where
  "compute_1d_on_group vf grp f ep nb_bins minmax =
     (let group_value = group_value_from vf grp f ep in
      case edges_1d f nb_bins minmax of
        Inl e \<Rightarrow> Inl e
      | Inr bins \<Rightarrow>
          let idx = bin_centers bins;
              tuning_curves = DataFrame idx (map fst grp)
          in (case histogram (fvalues f) bins of
                Inl e \<Rightarrow> Inl e
              | Inr occupancy \<Rightarrow> tuning_loop bins occupancy (rate f) group_value tuning_curves))"

text \<open>
  The argument \<^verbatim>\<open>group\<close> is a \<^verbatim>\<open>TsGroup\<close> or a plain dictionary of series, both
  written as the list of their items in iteration order. Lines 36 and 37: a dictionary
  is first turned into a group by \<^verbatim>\<open>nap.TsGroup(group, time_support = ep)\<close>. The
  constructor belongs to the container, which is not part of the module; the functions
  take it as their first argument \<open>mk\<close>.
\<close>

datatype ('k, 's) group_arg = Dict "('k \<times> 's) list" | TsGroup "('k \<times> 's) list"

definition as_tsgroup ::
  "(('k \<times> 's) list \<Rightarrow> interval_set \<Rightarrow> ('k \<times> 's) list) \<Rightarrow> ('k, 's) group_arg \<Rightarrow> interval_set
     \<Rightarrow> ('k \<times> 's) list" where
  "as_tsgroup mk g ep = (case g of Dict d \<Rightarrow> mk d ep | TsGroup grp \<Rightarrow> grp)"

definition compute_1d_tuning_curves ::
  "(('k \<times> 's) list \<Rightarrow> interval_set \<Rightarrow> ('k \<times> 's) list)
     \<Rightarrow> ('s \<Rightarrow> feature \<Rightarrow> interval_set \<Rightarrow> real list) \<Rightarrow> ('k, 's) group_arg \<Rightarrow> feature
     \<Rightarrow> interval_set \<Rightarrow> int \<Rightarrow> (real \<times> real) option \<Rightarrow> error + 'k dataframe" where
  "compute_1d_tuning_curves mk vf g f ep nb_bins minmax =
     compute_1d_on_group vf (as_tsgroup mk g ep) f ep nb_bins minmax"

text \<open>
  Modelled from the spec: the constructor \<^verbatim>\<open>nap.TsGroup\<close> of the container, for
  series of event times. It builds the group from a plain mapping and a time support:
  each member is restricted to the time support, and the container keeps its members in
  the increasing order of their identifiers, whatever the order of the mapping.
\<close>

definition nap_TsGroup ::
  "('k::linorder \<times> real list) list \<Rightarrow> interval_set \<Rightarrow> ('k \<times> real list) list" where
  "nap_TsGroup d ep = map (\<lambda>(k, ts). (k, filter (in_ep ep) ts)) (sort_key fst d)"

section \<open>Two-dimensional tuning curves\<close>

text \<open>
  A two-dimensional feature (\<^verbatim>\<open>TsdFrame\<close>) has the timestamps of its rows, its named
  columns in their order, and a rate. \<^verbatim>\<open>feature.shape[1]\<close> is the number of columns and
  \<^verbatim>\<open>feature[c]\<close> the series of one column. In a well-formed frame every column has one
  value per timestamp.
\<close>

record 'c tsdframe =
  times :: "real list"
  channels :: "('c \<times> real list) list"
  frame_rate :: real

definition channel_series :: "'c tsdframe \<Rightarrow> real list \<Rightarrow> feature" where
  "channel_series f v = \<lparr>samples = zip (times f) v, rate = frame_rate f\<rparr>"

definition wf_frame :: "'c tsdframe \<Rightarrow> bool" where
  "wf_frame f = list_all (\<lambda>(c, v). length v = length (times f)) (channels f)"

text \<open>
  \<^verbatim>\<open>minmax[j]\<close> on the tuple \<^verbatim>\<open>(minx, maxx, miny, maxy)\<close>, and the edges of the column
  with number \<open>i\<close> in \<^verbatim>\<open>enumerate(cols)\<close>: over the column's own extreme samples, or
  over \<^verbatim>\<open>minmax[i+i%2]\<close> and \<^verbatim>\<open>minmax[i+1+i%2]\<close>.
\<close>

fun tuple_get :: "real \<times> real \<times> real \<times> real \<Rightarrow> nat \<Rightarrow> error + real" where
  "tuple_get (a, b, c, d) j =
     (if j = 0 then Inr a else if j = 1 then Inr b else if j = 2 then Inr c
      else if j = 3 then Inr d else Inl IndexError)"

definition channel_edges ::
  "feature \<Rightarrow> int \<Rightarrow> (real \<times> real \<times> real \<times> real) option \<Rightarrow> nat \<Rightarrow> error + fval list" where
  "channel_edges fc nb_bins minmax i =
     (case minmax of
        None \<Rightarrow> linspace (np_min (fvalues fc)) (np_max (fvalues fc)) nb_bins
      | Some mm \<Rightarrow>
          (case tuple_get mm (i + i mod 2) of
             Inl e \<Rightarrow> Inl e
           | Inr lo \<Rightarrow>
               (case tuple_get mm (i + 1 + i mod 2) of
                  Inl e \<Rightarrow> Inl e
                | Inr hi \<Rightarrow> linspace (Fin lo) (Fin hi) nb_bins)))"

text \<open>
  \<^verbatim>\<open>np.histogram2d(x, y, [xedges, yedges])\<close>. The two sample arrays must have the same
  length and neither edge array may decrease. The bin number of a sample along one axis
  is \<^verbatim>\<open>np.searchsorted(edges, v, side='right')\<close>, the number of edges sorted before or at
  the sample, less one for a sample equal to the last edge (reading the last edge of an
  empty edge array raises). Number \<open>0\<close> and number \<open>len(edges)\<close> are the outliers; the
  result keeps the numbers \<open>1 .. len(edges) - 1\<close> on each axis, and each cell counts the
  samples with that pair of bin numbers.
\<close>

fun edge_upto :: "fval \<Rightarrow> real \<Rightarrow> bool" where
  "edge_upto (Fin e) v = (e \<le> v)"
| "edge_upto NInf v = True"
| "edge_upto _ v = False"

definition bin_number :: "fval list \<Rightarrow> real \<Rightarrow> nat" where
  "bin_number edges v =
     (let n = length (filter (\<lambda>e. edge_upto e v) edges)
      in if last edges = Fin v then n - 1 else n)"

definition histogram2d ::
  "real list \<Rightarrow> real list \<Rightarrow> fval list \<Rightarrow> fval list \<Rightarrow> error + int list list" where
  "histogram2d x y xedges yedges =
     (if length x \<noteq> length y then Inl ValueError
      else if decreases xedges \<or> decreases yedges then Inl ValueError
      else if xedges = [] \<or> yedges = [] then Inl IndexError
      else
        let Ncount = zip (map (bin_number xedges) x) (map (bin_number yedges) y)
        in Inr (map (\<lambda>i. map (\<lambda>j. int (length (filter (\<lambda>p. p = (i, j)) Ncount)))
                            [1..<length yedges])
                   [1..<length xedges]))"

text \<open>
  The loop over \<^verbatim>\<open>group.keys()\<close>: \<^verbatim>\<open>groups_value[c][n]\<close> is the series of member \<open>n\<close>
  aligned to column \<open>c\<close>. The counts are divided cell by cell by the occupancy and
  multiplied by the rate; the line that would set the not-a-number cells to zero is
  commented out in the source. The result is a dictionary in the order of the group.
\<close>

definition normalise2d :: "int list list \<Rightarrow> int list list \<Rightarrow> real \<Rightarrow> fval list list" where
  "normalise2d count occupancy r =
     map (\<lambda>(cs, ns). map (\<lambda>(c, n). fmul (fdiv (Fin (real_of_int c)) (Fin (real_of_int n))) (Fin r))
                          (zip cs ns))
         (zip count occupancy)"

fun tc_loop ::
  "('s \<Rightarrow> feature \<Rightarrow> interval_set \<Rightarrow> real list) \<Rightarrow> feature \<Rightarrow> feature \<Rightarrow> interval_set
     \<Rightarrow> fval list \<Rightarrow> fval list \<Rightarrow> int list list \<Rightarrow> real \<Rightarrow> ('k \<times> 's) list
     \<Rightarrow> error + ('k \<times> fval list list) list" where
  "tc_loop vf fx fy ep binsx binsy occupancy r [] = Inr []"
| "tc_loop vf fx fy ep binsx binsy occupancy r ((n, s) # grp) =
     (case histogram2d (vf s fx ep) (vf s fy ep) binsx binsy of
        Inl e \<Rightarrow> Inl e
      | Inr count \<Rightarrow>
          (case tc_loop vf fx fy ep binsx binsy occupancy r grp of
             Inl e \<Rightarrow> Inl e
           | Inr tc \<Rightarrow> Inr ((n, normalise2d count occupancy r) # tc)))"

text \<open>
  The computation of \<^verbatim>\<open>compute_2d_tuning_curves\<close> from line 91 on, on a group that is a
  \<^verbatim>\<open>TsGroup\<close>. Past the check of the shape the feature has exactly two
  columns, and the loop over \<^verbatim>\<open>enumerate(cols)\<close> runs for \<open>i = 0\<close> and \<open>i = 1\<close>; the
  dictionaries keyed by the two column names are the two values of each kind. The
  result is the dictionary of the tuning curves and the list of the two arrays of bin
  centres.
\<close>

definition compute_2d_on_group ::
  "('s \<Rightarrow> feature \<Rightarrow> interval_set \<Rightarrow> real list) \<Rightarrow> ('k \<times> 's) list \<Rightarrow> 'c tsdframe \<Rightarrow> interval_set
     \<Rightarrow> int \<Rightarrow> (real \<times> real \<times> real \<times> real) option
     \<Rightarrow> error + (('k \<times> fval list list) list \<times> fval list list)" where
  "compute_2d_on_group vf grp f ep nb_bins minmax =
     (if length (channels f) \<noteq> 2 then Inl RuntimeError
      else
        let fx = channel_series f (snd (channels f ! 0));
            fy = channel_series f (snd (channels f ! 1))
        in case channel_edges fx nb_bins minmax 0 of
             Inl e \<Rightarrow> Inl e
           | Inr binsx \<Rightarrow>
               (case channel_edges fy nb_bins minmax 1 of
                  Inl e \<Rightarrow> Inl e
                | Inr binsy \<Rightarrow>
                    (case histogram2d (fvalues fx) (fvalues fy) binsx binsy of
                       Inl e \<Rightarrow> Inl e
                     | Inr occupancy \<Rightarrow>
                         (case tc_loop vf fx fy ep binsx binsy occupancy (frame_rate f) grp of
                            Inl e \<Rightarrow> Inl e
                          | Inr tc \<Rightarrow> Inr (tc, [bin_centers binsx, bin_centers binsy])))))"

text \<open>
  \<^verbatim>\<open>compute_2d_tuning_curves\<close>: lines 88 and 89 turn a plain dictionary into a group
  first, as in the one-dimensional function.
\<close>

definition compute_2d_tuning_curves ::
  "(('k \<times> 's) list \<Rightarrow> interval_set \<Rightarrow> ('k \<times> 's) list)
     \<Rightarrow> ('s \<Rightarrow> feature \<Rightarrow> interval_set \<Rightarrow> real list) \<Rightarrow> ('k, 's) group_arg \<Rightarrow> 'c tsdframe
     \<Rightarrow> interval_set \<Rightarrow> int \<Rightarrow> (real \<times> real \<times> real \<times> real) option
     \<Rightarrow> error + (('k \<times> fval list list) list \<times> fval list list)" where
  "compute_2d_tuning_curves mk vf g f ep nb_bins minmax =
     compute_2d_on_group vf (as_tsgroup mk g ep) f ep nb_bins minmax"

section \<open>Mutual information\<close>

text \<open>
  The tuning curves come as a \<^verbatim>\<open>DataFrame\<close> or as an array with rows for the bins and
  columns for the members (written here as its number of rows and the list of its
  columns). The labels of the result are the column labels of the table, or the
  positions \<open>0, 1, ...\<close> of the columns of the array.
\<close>

datatype 'k tuning = Frame "'k dataframe" | Array nat "fval list list"

fun tc_columns :: "'k tuning \<Rightarrow> ('k + nat) list" where
  "tc_columns (Frame df) = map Inl (columns df)"
| "tc_columns (Array n cs) = map Inr [0..<length cs]"

fun tc_fx :: "'k tuning \<Rightarrow> fval list list" where
  "tc_fx (Frame df) = map (cells df) (columns df)"
| "tc_fx (Array n cs) = cs"

fun tc_rows :: "'k tuning \<Rightarrow> nat" where
  "tc_rows (Frame df) = length (index df)"
| "tc_rows (Array n cs) = n"

text \<open>
  The occupancy of \<^verbatim>\<open>compute_mutual_information_1d\<close>: the histogram of the feature
  restricted to the interval set, each count divided by their sum.
\<close>

definition occupancy_probability :: "int list \<Rightarrow> fval list" where
  "occupancy_probability occ =
     map (\<lambda>n. fdiv (Fin (real_of_int n)) (Fin (real_of_int (sum_list occ)))) occ"

text \<open>
  For one column \<open>fx\<close> of the tuning curves: the mean rate
  \<^verbatim>\<open>fr = np.sum(fx * occupancy, 0)\<close>, the logarithm \<^verbatim>\<open>np.log2(fx/fr)\<close> with
  \<^verbatim>\<open>logfx[np.isinf(logfx)] = 0.0\<close>, and \<^verbatim>\<open>SI = np.sum(occupancy * fx * logfx, 0)\<close>.
\<close>

definition mean_rate :: "fval list \<Rightarrow> fval list \<Rightarrow> fval" where
  "mean_rate occupancy fx = fsum (map (\<lambda>(x, p). fmul x p) (zip fx occupancy))"

definition logfx :: "fval \<Rightarrow> fval \<Rightarrow> fval" where
  "logfx fr x = (let l = flog2 (fdiv x fr) in if isinf l then Fin 0 else l)"

definition spatial_information :: "fval list \<Rightarrow> fval list \<Rightarrow> fval" where
  "spatial_information occupancy fx =
     fsum (map (\<lambda>(p, x). fmul (fmul p x) (logfx (mean_rate occupancy fx) x)) (zip occupancy fx))"

definition compute_mutual_information_1d ::
  "'k tuning \<Rightarrow> feature \<Rightarrow> interval_set \<Rightarrow> (real \<times> real) option \<Rightarrow> bool
     \<Rightarrow> error + (('k + nat) \<times> fval) list" where
  "compute_mutual_information_1d tc f ep minmax bitssecond =
     (let nb_bins = int (tc_rows tc) + 1 in
      case edges_1d f nb_bins minmax of
        Inl e \<Rightarrow> Inl e
      | Inr bins \<Rightarrow>
          (case histogram (fvalues (restrict f ep)) bins of
             Inl e \<Rightarrow> Inl e
           | Inr occ \<Rightarrow>
               let occupancy = occupancy_probability occ;
                   SI = map (\<lambda>fx. if bitssecond then spatial_information occupancy fx
                                   else fdiv (spatial_information occupancy fx)
                                          (mean_rate occupancy fx))
                          (tc_fx tc)
               in Inr (zip (tc_columns tc) SI)))"

text \<open>
  The formula of the docstring of \<^verbatim>\<open>compute_mutual_information_1d\<close> on real numbers:
  the occupancy probabilities \<open>ps\<close> are the counts divided by their sum, and for the
  rates \<open>xs\<close> of the bins the mean rate is the sum of \<open>x * p\<close> and the information per
  second the sum of
  \<open>p * x * log2 (x / mean rate)\<close>, a bin with the rate zero contributing nothing.
\<close>

definition skaggs_probability :: "int list \<Rightarrow> real list" where
  "skaggs_probability occ = map (\<lambda>n. real_of_int n / real_of_int (sum_list occ)) occ"

definition skaggs_rate :: "real list \<Rightarrow> real list \<Rightarrow> real" where
  "skaggs_rate ps xs = sum_list (map (\<lambda>(x, p). x * p) (zip xs ps))"

definition skaggs_information :: "real list \<Rightarrow> real list \<Rightarrow> real" where
  "skaggs_information ps xs =
     sum_list (map (\<lambda>(p, x). p * x * (if x = 0 then 0 else log 2 (x / skaggs_rate ps xs)))
                   (zip ps xs))"

section \<open>Example inputs\<close>

text \<open>
  A feature of three samples at the rate 2, a group of two series of event times, and an
  interval set. Between the edges 1 and 2 the feature has no sample.
\<close>

definition ex_feature :: feature where
  "ex_feature = \<lparr>samples = [(0, 0), (1, 1/2), (2, 3)], rate = 2\<rparr>"

definition ex_group :: "(nat \<times> real list) list" where
  "ex_group = [(3, [1]), (7, [1/10, 19/10, 20])]"

text \<open>The same two series as a plain dictionary that iterates over 7 before 3.\<close>

definition ex_dict :: "(nat \<times> real list) list" where
  "ex_dict = [(7, [1/10, 19/10, 20]), (3, [1])]"

definition ex_ep :: interval_set where
  "ex_ep = [(0, 10)]"

text \<open>
  A frame of two columns over the same three timestamps, and the same frame with a third
  column. With three edges per axis no sample of the two-column frame falls into the bin
  of low \<open>x\<close> and high \<open>y\<close>, nor into the bin of high \<open>x\<close> and low \<open>y\<close>.
\<close>

definition ex_frame :: "string tsdframe" where
  "ex_frame = \<lparr>times = [0, 1, 2],
                channels = [(''x'', [0, 1/2, 3]), (''y'', [1, 1, 2])],
                frame_rate = 2\<rparr>"

definition ex_frame3 :: "string tsdframe" where
  "ex_frame3 = \<lparr>times = [0, 1, 2],
                 channels = [(''x'', [0, 1/2, 3]), (''y'', [1, 1, 2]), (''z'', [0, 0, 0])],
                 frame_rate = 2\<rparr>"

text \<open>
  Tuning curves over three bins as an array: a column that is zero in every bin, and a
  column with the mean rate 2 that is zero in the bin without samples.
\<close>

definition ex_tuning :: "nat tuning" where
  "ex_tuning = Array 3 [[Fin 0, Fin 0, Fin 0], [Fin 1, Fin 0, Fin 4]]"

text \<open>
  A feature with a sample outside the interval set \<open>[0, 10)\<close>, whose value lies outside
  the bounds \<open>(0, 1)\<close>.
\<close>

definition ex_feature_out :: feature where
  "ex_feature_out = \<lparr>samples = [(0, 1/2), (20, 7)], rate = 1\<rparr>"


section \<open>Lengths and entries of the arrays\<close>

lemma linspace_length: "linspace a b n = Inr xs \<Longrightarrow> length xs = nat n"
  by (auto simp: linspace_def Let_def split: if_splits)

lemma length_diff: "length (diff xs) = length xs - 1"
  by (induction xs rule: diff.induct) auto

lemma length_fdiff: "length (fdiff xs) = length xs - 1"
  by (induction xs rule: fdiff.induct) auto

lemma length_search_sorted_inclusive: "length (search_sorted_inclusive a v) = length v"
  by (cases "v = []") (auto simp: search_sorted_inclusive_def)

lemma histogram_length: "histogram a bins = Inr c \<Longrightarrow> length c = length bins - 1"
  by (auto simp: histogram_def length_diff length_search_sorted_inclusive split: if_splits)

lemma histogram_Inr_iff: "(\<exists>c. histogram a bins = Inr c) \<longleftrightarrow> \<not> decreases bins"
  by (auto simp: histogram_def)

lemma length_bin_centers: "length (bin_centers bins) = length bins - 1"
  by (simp add: bin_centers_def length_fdiff)

lemma fdiff_nth: "Suc j < length xs \<Longrightarrow> fdiff xs ! j = fsub (xs ! Suc j) (xs ! j)"
proof (induction xs arbitrary: j rule: fdiff.induct)
  case (1 x y zs)
  then show ?case by (cases j) auto
qed auto

lemma diff_nth: "Suc j < length xs \<Longrightarrow> diff xs ! j = xs ! Suc j - xs ! j"
proof (induction xs arbitrary: j rule: diff.induct)
  case (1 x y zs)
  then show ?case by (cases j) auto
qed auto

lemma bin_centers_nth:
  "Suc j < length bins \<Longrightarrow>
   bin_centers bins ! j = fadd (bins ! j) (fdiv (fsub (bins ! Suc j) (bins ! j)) (Fin 2))"
  by (simp add: bin_centers_def length_fdiff fdiff_nth)

lemma centre_Fin: "fadd (Fin a) (fdiv (fsub (Fin b) (Fin a)) (Fin 2)) = Fin ((a + b) / 2)"
  by (simp add: fsub_def field_simps)

lemma length_normalise: "length (normalise c n) = min (length c) (length n)"
  by (simp add: normalise_def)


lemma setitem_Inr:
  "setitem df k c = Inr df' \<Longrightarrow>
     length c = length (index df) \<and> index df' = index df \<and> cells df' = (cells df)(k := c) \<and>
     columns df' = (if k \<in> set (columns df) then columns df else columns df @ [k])"
  by (auto simp: setitem_def split: if_splits)

lemma tuning_loop_index:
  "tuning_loop bins occ r gv df = Inr df' \<Longrightarrow> index df' = index df"
proof (induction gv arbitrary: df)
  case Nil
  then show ?case by simp
next
  case (Cons p gv)
  obtain k a where p: "p = (k, a)" by (cases p)
  from Cons.prems obtain count df1 df2 where
    h: "histogram a bins = Inr count"
    and s1: "setitem df k (normalise count occ) = Inr df1"
    and s2: "setitem df1 k (map (\<lambda>c. fmul c (Fin r)) (normalise count occ)) = Inr df2"
    and rest: "tuning_loop bins occ r gv df2 = Inr df'"
    by (auto simp: p split: sum.splits)
  from Cons.IH[OF rest] setitem_Inr[OF s1] setitem_Inr[OF s2] show ?case by simp
qed

lemma tuning_loop_columns:
  "tuning_loop bins occ r gv df = Inr df' \<Longrightarrow> set (map fst gv) \<subseteq> set (columns df) \<Longrightarrow>
   columns df' = columns df"
proof (induction gv arbitrary: df)
  case Nil
  then show ?case by simp
next
  case (Cons p gv)
  obtain k a where p: "p = (k, a)" by (cases p)
  from Cons.prems(1) obtain count df1 df2 where
    h: "histogram a bins = Inr count"
    and s1: "setitem df k (normalise count occ) = Inr df1"
    and s2: "setitem df1 k (map (\<lambda>c. fmul c (Fin r)) (normalise count occ)) = Inr df2"
    and rest: "tuning_loop bins occ r gv df2 = Inr df'"
    by (auto simp: p split: sum.splits)
  from Cons.prems(2) have kin: "k \<in> set (columns df)" by (simp add: p)
  have c2: "columns df2 = columns df"
    using setitem_Inr[OF s1] setitem_Inr[OF s2] kin by simp
  from Cons.prems(2) have "set (map fst gv) \<subseteq> set (columns df2)" by (simp add: c2)
  from Cons.IH[OF rest this] c2 show ?case by simp
qed

lemma tuning_loop_other:
  "tuning_loop bins occ r gv df = Inr df' \<Longrightarrow> k \<notin> fst ` set gv \<Longrightarrow> cells df' k = cells df k"
proof (induction gv arbitrary: df)
  case Nil
  then show ?case by simp
next
  case (Cons p gv)
  obtain k0 a where p: "p = (k0, a)" by (cases p)
  from Cons.prems(1) obtain count df1 df2 where
    h: "histogram a bins = Inr count"
    and s1: "setitem df k0 (normalise count occ) = Inr df1"
    and s2: "setitem df1 k0 (map (\<lambda>c. fmul c (Fin r)) (normalise count occ)) = Inr df2"
    and rest: "tuning_loop bins occ r gv df2 = Inr df'"
    by (auto simp: p split: sum.splits)
  from Cons.prems(2) have ne: "k \<noteq> k0" and notin: "k \<notin> fst ` set gv" by (auto simp: p)
  have "cells df2 k = cells df k"
    using setitem_Inr[OF s1] setitem_Inr[OF s2] ne by simp
  with Cons.IH[OF rest notin] show ?case by simp
qed

lemma tuning_loop_member:
  "tuning_loop bins occ r gv df = Inr df' \<Longrightarrow> distinct (map fst gv) \<Longrightarrow> (k, a) \<in> set gv \<Longrightarrow>
   \<exists>count. histogram a bins = Inr count \<and>
           cells df' k = map (\<lambda>c. fmul c (Fin r)) (normalise count occ)"
proof (induction gv arbitrary: df)
  case Nil
  then show ?case by simp
next
  case (Cons p gv)
  obtain k0 a0 where p: "p = (k0, a0)" by (cases p)
  from Cons.prems(1) obtain count df1 df2 where
    h: "histogram a0 bins = Inr count"
    and s1: "setitem df k0 (normalise count occ) = Inr df1"
    and s2: "setitem df1 k0 (map (\<lambda>c. fmul c (Fin r)) (normalise count occ)) = Inr df2"
    and rest: "tuning_loop bins occ r gv df2 = Inr df'"
    by (auto simp: p split: sum.splits)
  from Cons.prems(2) have d: "distinct (map fst gv)" and k0: "k0 \<notin> fst ` set gv"
    by (auto simp: p)
  show ?case
  proof (cases "(k, a) \<in> set gv")
    case True
    from Cons.IH[OF rest d True] show ?thesis .
  next
    case False
    with Cons.prems(3) have eq: "k = k0" "a = a0" by (auto simp: p)
    have "cells df' k0 = cells df2 k0" by (rule tuning_loop_other[OF rest k0])
    also have "\<dots> = map (\<lambda>c. fmul c (Fin r)) (normalise count occ)"
      using setitem_Inr[OF s2] by simp
    finally show ?thesis using h eq by simp
  qed
qed

lemma tuning_loop_returns:
  "\<not> decreases bins \<Longrightarrow> length occ = length bins - 1 \<Longrightarrow> length (index df) = length bins - 1 \<Longrightarrow>
   \<exists>df'. tuning_loop bins occ r gv df = Inr df'"
proof (induction gv arbitrary: df)
  case Nil
  then show ?case by simp
next
  case (Cons p gv)
  obtain k a where p: "p = (k, a)" by (cases p)
  from Cons.prems(1) obtain count where h: "histogram a bins = Inr count"
    by (auto simp: histogram_def)
  have lc: "length (normalise count occ) = length (index df)"
    using histogram_length[OF h] Cons.prems by (simp add: length_normalise)
  then obtain df1 where s1: "setitem df k (normalise count occ) = Inr df1"
    by (auto simp: setitem_def)
  have i1: "index df1 = index df" using setitem_Inr[OF s1] by simp
  obtain df2 where s2: "setitem df1 k (map (\<lambda>c. fmul c (Fin r)) (normalise count occ)) = Inr df2"
    using lc i1 by (auto simp: setitem_def)
  have i2: "length (index df2) = length bins - 1"
    using setitem_Inr[OF s2] i1 Cons.prems(3) by simp
  from Cons.IH[OF Cons.prems(1,2) i2] obtain df' where "tuning_loop bins occ r gv df2 = Inr df'"
    by blast
  then show ?case using h s1 s2 by (auto simp: p)
qed

section \<open>The table of the one-dimensional tuning curves\<close>

lemma compute_1d_Inr:
  assumes "compute_1d_on_group vf grp f ep nb_bins minmax = Inr df"
  shows "\<exists>bins occupancy. edges_1d f nb_bins minmax = Inr bins \<and>
           histogram (fvalues f) bins = Inr occupancy \<and>
           tuning_loop bins occupancy (rate f) (group_value_from vf grp f ep)
             (DataFrame (bin_centers bins) (map fst grp)) = Inr df"
  using assms by (auto simp: compute_1d_on_group_def Let_def split: sum.splits)

lemma edges_1d_length: "edges_1d f nb_bins minmax = Inr bins \<Longrightarrow> length bins = nat nb_bins"
  by (auto simp: edges_1d_def linspace_length split: option.splits)

lemma fst_group_value_from: "map fst (group_value_from vf grp f ep) = map fst grp"
  by (induction grp) (auto simp: group_value_from_def)

lemma tuning_loop_cells_length:
  "tuning_loop bins occ r gv df = Inr df' \<Longrightarrow> length (cells df k) = length (index df) \<Longrightarrow>
   length (cells df' k) = length (index df')"
proof (induction gv arbitrary: df)
  case Nil
  then show ?case by simp
next
  case (Cons p gv)
  obtain k0 a where p: "p = (k0, a)" by (cases p)
  from Cons.prems(1) obtain count df1 df2 where
    h: "histogram a bins = Inr count"
    and s1: "setitem df k0 (normalise count occ) = Inr df1"
    and s2: "setitem df1 k0 (map (\<lambda>c. fmul c (Fin r)) (normalise count occ)) = Inr df2"
    and rest: "tuning_loop bins occ r gv df2 = Inr df'"
    by (auto simp: p split: sum.splits)
  have "length (cells df2 k) = length (index df2)"
    using setitem_Inr[OF s1] setitem_Inr[OF s2] Cons.prems(2) by (cases "k = k0") auto
  from Cons.IH[OF rest this] show ?case .
qed

text \<open>
  For a group that is a \<^verbatim>\<open>TsGroup\<close>: a call of \<^verbatim>\<open>compute_1d_on_group\<close> with \<open>nb_bins \<ge> 2\<close> and a non-empty group
  that returns a table returns one with exactly \<open>nb_bins - 1\<close> rows, indexed by the bin
  centres (for each bin the code's \<open>edge + (next edge - edge) / 2\<close>, the midpoint of two
  finite consecutive edges), with the identifiers of the group as its column labels, in
  the group's iteration order, and \<open>nb_bins - 1\<close> cells in each column.
\<close>

lemma table_shape_1d_on_group:
  assumes "2 \<le> nb_bins" and "grp \<noteq> []"
    and "compute_1d_on_group vf grp f ep nb_bins minmax = Inr df"
  shows "\<exists>bins. edges_1d f nb_bins minmax = Inr bins \<and> length bins = nat nb_bins \<and>
           length (index df) = nat (nb_bins - 1) \<and>
           (\<forall>j < nat (nb_bins - 1).
              index df ! j = fadd (bins ! j) (fdiv (fsub (bins ! Suc j) (bins ! j)) (Fin 2)) \<and>
              (\<forall>a b. bins ! j = Fin a \<and> bins ! Suc j = Fin b \<longrightarrow> index df ! j = Fin ((a + b) / 2))) \<and>
           columns df = map fst grp \<and>
           list_all (\<lambda>k. length (cells df k) = nat (nb_bins - 1)) (columns df)"
proof -
  from compute_1d_Inr[OF assms(3)] obtain bins occupancy where
    e: "edges_1d f nb_bins minmax = Inr bins"
    and h: "histogram (fvalues f) bins = Inr occupancy"
    and l: "tuning_loop bins occupancy (rate f) (group_value_from vf grp f ep)
              (DataFrame (bin_centers bins) (map fst grp)) = Inr df"
    by blast
  have len: "length bins = nat nb_bins" by (rule edges_1d_length[OF e])
  have idx: "index df = bin_centers bins"
    using tuning_loop_index[OF l] by (simp add: DataFrame_def)
  have rows: "length (index df) = nat (nb_bins - 1)"
    using len assms(1) by (simp add: idx length_bin_centers nat_diff_distrib)
  have mid: "index df ! j = fadd (bins ! j) (fdiv (fsub (bins ! Suc j) (bins ! j)) (Fin 2))"
    if "j < nat (nb_bins - 1)" for j
    using that len assms(1) by (simp add: idx bin_centers_nth)
  have mid': "index df ! j = Fin ((a + b) / 2)"
    if "j < nat (nb_bins - 1)" "bins ! j = Fin a \<and> bins ! Suc j = Fin b" for j a b
    using mid[OF that(1)] that(2) by (simp add: centre_Fin)
  have cols: "columns df = map fst grp"
    using tuning_loop_columns[OF l] by (simp add: DataFrame_def fst_group_value_from)
  have "length (cells df k) = length (index df)" for k
    by (rule tuning_loop_cells_length[OF l]) (simp add: DataFrame_def)
  then have cl: "list_all (\<lambda>k. length (cells df k) = nat (nb_bins - 1)) (columns df)"
    by (simp add: rows list_all_iff)
  from e len rows mid mid' cols cl show ?thesis by blast
qed


text \<open>The example: four edges, three rows, the columns 3 and 7.\<close>

lemma ex_edges: "edges_1d ex_feature 4 None = Inr [Fin 0, Fin 1, Fin 2, Fin 3]"
  by code_simp

lemma ex_returns:
  "\<not> isl (compute_1d_on_group value_from_closest ex_group ex_feature ex_ep 4 None)"
  by code_simp

lemma table_shape_1d_on_group_example:
  "\<exists>df. compute_1d_on_group value_from_closest ex_group ex_feature ex_ep 4 None = Inr df \<and>
        length (index df) = 3 \<and> index df ! 0 = Fin (1 / 2) \<and> index df ! 1 = Fin (3 / 2) \<and>
        index df ! 2 = Fin (5 / 2) \<and> columns df = [3, 7] \<and>
        length (cells df 3) = 3 \<and> length (cells df 7) = 3"
proof -
  obtain df where r:
    "compute_1d_on_group value_from_closest ex_group ex_feature ex_ep 4 None = Inr df"
    using ex_returns
    by (cases "compute_1d_on_group value_from_closest ex_group ex_feature ex_ep 4 None") auto
  have g: "ex_group \<noteq> []" by (simp add: ex_group_def)
  from table_shape_1d_on_group[OF _ g r] obtain bins where
    b: "edges_1d ex_feature 4 None = Inr bins"
    and rows: "length (index df) = nat (4 - 1)"
    and mid: "\<forall>j < nat (4 - 1). index df ! j = fadd (bins ! j) (fdiv (fsub (bins ! Suc j) (bins ! j)) (Fin 2))"
    and cols: "columns df = map fst ex_group"
    and cl: "list_all (\<lambda>k. length (cells df k) = nat (4 - 1)) (columns df)"
    by auto
  from b have bins: "bins = [Fin 0, Fin 1, Fin 2, Fin 3]" by (simp add: ex_edges)
  have m0: "index df ! 0 = Fin (1 / 2)" using mid by (simp add: bins fsub_def)
  have m1: "index df ! 1 = Fin (3 / 2)" using mid by (simp add: bins fsub_def)
  have m2: "index df ! 2 = Fin (5 / 2)" using mid by (simp add: bins fsub_def)
  from r rows m0 m1 m2 cols cl show ?thesis by (simp add: ex_group_def)
qed

section \<open>Bin edges and histogram counts\<close>

lemma search_sorted_inclusive_nth:
  "j < length v \<Longrightarrow>
   search_sorted_inclusive a v ! j =
     (if Suc j < length v then searchsorted_left a (v ! j) else searchsorted_right a (v ! j))"
proof (cases "Suc j < length v")
  case True
  then have "j < length v - Suc 0" by arith
  with True show ?thesis by (simp add: search_sorted_inclusive_def nth_append)
next
  case False
  assume "j < length v"
  with False have j: "j = length v - 1" by arith
  show ?thesis using False \<open>j < length v\<close>
    by (simp add: search_sorted_inclusive_def nth_append j)
qed

lemma histogram_nth:
  assumes "histogram a bins = Inr c" and "Suc j < length bins"
  shows "c ! j = (if Suc (Suc j) < length bins then searchsorted_left a (bins ! Suc j)
                  else searchsorted_right a (bins ! Suc j))
                 - searchsorted_left a (bins ! j)"
proof -
  from assms(1) have c: "c = diff (search_sorted_inclusive a bins)"
    by (auto simp: histogram_def split: if_splits)
  show ?thesis
    using assms(2)
    by (simp add: c diff_nth length_search_sorted_inclusive search_sorted_inclusive_nth)
qed

lemma filter_count_diff:
  "(\<And>x. Q x \<Longrightarrow> P x) \<Longrightarrow>
   int (length (filter P a)) - int (length (filter Q a)) = int (length (filter (\<lambda>x. P x \<and> \<not> Q x) a))"
  by (induction a) auto

lemma filter_empty_subset:
  "length (filter P a) = 0 \<Longrightarrow> set a' \<subseteq> set a \<Longrightarrow> length (filter P a') = 0"
  by (auto simp: filter_empty_conv)

lemma sorts_step:
  assumes "\<not> decreases bins" and "list_all isfinite bins \<or> list_all isnan bins"
    and "Suc j < length bins" and "sorts_before x (bins ! j)"
  shows "sorts_before x (bins ! Suc j) \<and> sorts_upto x (bins ! Suc j)"
proof -
  have ng: "\<not> fgreater (bins ! j) (bins ! Suc j)"
    using assms(1,3)
  proof (induction bins arbitrary: j rule: decreases.induct)
    case (1 x y zs)
    then show ?case by (cases j) auto
  qed auto
  from assms(2) show ?thesis
  proof
    assume "list_all isfinite bins"
    then have "isfinite (bins ! j)" "isfinite (bins ! Suc j)"
      using assms(3) by (auto simp: list_all_length)
    then obtain u w where "bins ! j = Fin u" "bins ! Suc j = Fin w"
      by (cases "bins ! j"; cases "bins ! Suc j") auto
    with ng assms(4) show ?thesis by auto
  next
    assume "list_all isnan bins"
    then have "isnan (bins ! Suc j)" using assms(3) by (auto simp: list_all_length)
    then show ?thesis by (cases "bins ! Suc j") auto
  qed
qed

lemma histogram_bin_count:
  assumes "histogram a bins = Inr c"
    and "list_all isfinite bins \<or> list_all isnan bins"
    and "Suc j < length bins"
  shows "c ! j = int (length (filter (\<lambda>x. (if Suc (Suc j) < length bins then sorts_before x (bins ! Suc j)
                                           else sorts_upto x (bins ! Suc j))
                                         \<and> \<not> sorts_before x (bins ! j)) a))"
proof -
  from assms(1) have nd: "\<not> decreases bins" by (auto simp: histogram_def split: if_splits)
  have imp: "sorts_before x (bins ! j) \<Longrightarrow>
             (if Suc (Suc j) < length bins then sorts_before x (bins ! Suc j)
              else sorts_upto x (bins ! Suc j))" for x
    using sorts_step[OF nd assms(2,3)] by simp
  show ?thesis
  proof (cases "Suc (Suc j) < length bins")
    case True
    with imp have "sorts_before x (bins ! j) \<Longrightarrow> sorts_before x (bins ! Suc j)" for x by simp
    from filter_count_diff[of "\<lambda>x. sorts_before x (bins ! j)"
        "\<lambda>x. sorts_before x (bins ! Suc j)" a, OF this]
    show ?thesis
      using True by (simp add: histogram_nth[OF assms(1,3)] searchsorted_left_def)
  next
    case False
    with imp have "sorts_before x (bins ! j) \<Longrightarrow> sorts_upto x (bins ! Suc j)" for x by simp
    from filter_count_diff[of "\<lambda>x. sorts_before x (bins ! j)"
        "\<lambda>x. sorts_upto x (bins ! Suc j)" a, OF this]
    show ?thesis
      using False
      by (simp add: histogram_nth[OF assms(1,3)] searchsorted_left_def searchsorted_right_def)
  qed
qed

lemma histogram_zero_subset:
  assumes "histogram a bins = Inr occ" and "histogram a' bins = Inr count"
    and "set a' \<subseteq> set a"
    and "list_all isfinite bins \<or> list_all isnan bins"
    and "j < length occ" and "occ ! j = 0"
  shows "count ! j = 0"
proof -
  have j: "Suc j < length bins" using histogram_length[OF assms(1)] assms(5) by simp
  from histogram_bin_count[OF assms(1,4) j] assms(6)
  have "length (filter (\<lambda>x. (if Suc (Suc j) < length bins then sorts_before x (bins ! Suc j)
                                           else sorts_upto x (bins ! Suc j))
                                         \<and> \<not> sorts_before x (bins ! j)) a) = 0"
    by simp
  from filter_empty_subset[OF this assms(3)] histogram_bin_count[OF assms(2,4) j]
  show ?thesis by simp
qed


lemma linspace_Fin:
  assumes "0 \<le> n"
  shows "linspace (Fin a) (Fin b) n =
           Inr (map (\<lambda>i. Fin (a + real i * ((b - a) / (real (nat n) - 1)))) [0..<nat n])"
proof -
  have "(if 1 < nat n \<and> Suc i = nat n then Fin b
         else fadd (if 0 < real (nat n) - 1
                    then (if fdiv (Fin (b - a)) (Fin (real (nat n) - 1)) = Fin 0
                          then fmul (fdiv (Fin (real i)) (Fin (real (nat n) - 1))) (Fin (b - a))
                          else fmul (Fin (real i)) (fdiv (Fin (b - a)) (Fin (real (nat n) - 1))))
                    else fmul (Fin (real i)) (Fin (b - a))) (Fin a))
        = Fin (a + real i * ((b - a) / (real (nat n) - 1)))"
    if "i < nat n" for i
  proof (cases "1 < nat n")
    case True
    then have d: "0 < real (nat n) - 1" by simp
    show ?thesis
    proof (cases "Suc i = nat n")
      case True
      then have "real i = real (nat n) - 1" by auto
      with d show ?thesis using True \<open>1 < nat n\<close> by simp
    next
      case False
      with d show ?thesis by auto
    qed
  next
    case False
    with that have "i = 0" by arith
    with False show ?thesis by simp
  qed
  then show ?thesis
    using assms by (simp add: linspace_def fsub_def Let_def)
qed

lemma fmul_NaN_right: "fmul x NaN = NaN"
  by (cases x) auto

lemma fadd_NaN_right: "fadd x NaN = NaN"
  by (cases x) auto

lemma linspace_NaN:
  assumes "0 \<le> n"
  shows "linspace NaN NaN n = Inr (replicate (nat n) NaN)"
proof -
  have "map (\<lambda>i. NaN) [0..<nat n] = replicate (nat n) NaN"
    by (simp add: map_replicate_const)
  then show ?thesis
    using assms
    by (simp add: linspace_def fsub_def Let_def fmul_NaN_right fadd_NaN_right cong: if_cong)
qed

lemma linspace_Inr_iff: "(\<exists>xs. linspace a b n = Inr xs) \<longleftrightarrow> 0 \<le> n"
  by (auto simp: linspace_def Let_def)

lemma decreases_nth:
  "decreases xs \<longleftrightarrow> (\<exists>i. Suc i < length xs \<and> fgreater (xs ! i) (xs ! Suc i))"
proof (induction xs rule: decreases.induct)
  case (1 x y zs)
  show ?case
  proof
    assume "decreases (x # y # zs)"
    then consider "fgreater x y" | "decreases (y # zs)" by auto
    then show "\<exists>i. Suc i < length (x # y # zs) \<and> fgreater ((x # y # zs) ! i) ((x # y # zs) ! Suc i)"
    proof cases
      case 1
      then show ?thesis by (intro exI[of _ 0]) simp
    next
      case 2
      with "1.IH" obtain i where "Suc i < length (y # zs)" "fgreater ((y # zs) ! i) ((y # zs) ! Suc i)"
        by blast
      then show ?thesis by (intro exI[of _ "Suc i"]) simp
    qed
  next
    assume "\<exists>i. Suc i < length (x # y # zs) \<and> fgreater ((x # y # zs) ! i) ((x # y # zs) ! Suc i)"
    then obtain i where i: "Suc i < length (x # y # zs)"
      "fgreater ((x # y # zs) ! i) ((x # y # zs) ! Suc i)" by blast
    show "decreases (x # y # zs)"
    proof (cases i)
      case 0
      with i show ?thesis by simp
    next
      case (Suc i')
      with i have "Suc i' < length (y # zs) \<and> fgreater ((y # zs) ! i') ((y # zs) ! Suc i')" by simp
      with "1.IH" show ?thesis by auto
    qed
  qed
qed auto

lemma np_min_max:
  assumes "xs \<noteq> []"
  shows "np_min xs = Fin (Min (set xs)) \<and> np_max xs = Fin (Max (set xs))"
proof (cases xs)
  case Nil
  with assms show ?thesis by simp
next
  case (Cons x ys)
  show ?thesis
    using Min.set_eq_fold[of x ys] Max.set_eq_fold[of x ys]
    by (simp only: Cons np_min.simps np_max.simps)
qed

lemma linspace_Fin_not_decreasing:
  assumes "a \<le> b \<or> n < 2" and "linspace (Fin a) (Fin b) n = Inr bins"
  shows "\<not> decreases bins"
proof -
  from assms(2) have n: "0 \<le> n" using linspace_Inr_iff[of "Fin a" "Fin b" n] by auto
  have bins: "bins = map (\<lambda>i. Fin (a + real i * ((b - a) / (real (nat n) - 1)))) [0..<nat n]"
    using assms(2) by (simp add: linspace_Fin[OF n])
  show ?thesis
  proof
    assume "decreases bins"
    then obtain i where i: "Suc i < length bins" "fgreater (bins ! i) (bins ! Suc i)"
      by (auto simp: decreases_nth)
    from i(1) have i': "Suc i < nat n" by (simp add: bins)
    then have "2 \<le> n" by arith
    with assms(1) have ab: "a \<le> b" by simp
    from i' have d: "0 < real (nat n) - 1" by simp
    define c where "c = (b - a) / (real (nat n) - 1)"
    have "0 \<le> c" using ab d by (simp add: c_def)
    moreover have "real (Suc i) * c = real i * c + c" by (simp add: algebra_simps)
    ultimately have "a + real i * c \<le> a + real (Suc i) * c" by simp
    moreover from i(2) i' have "a + real (Suc i) * c < a + real i * c"
      by (simp add: bins c_def)
    ultimately show False by simp
  qed
qed

lemma replicate_NaN_not_decreasing: "\<not> decreases (replicate n NaN)"
  by (auto simp: decreases_nth)

lemma edges_1d_cases:
  assumes "edges_1d f nb_bins minmax = Inr bins"
  shows "list_all isfinite bins \<or> list_all isnan bins"
proof -
  from assms have n: "0 \<le> nb_bins"
    using linspace_Inr_iff by (fastforce simp: edges_1d_def split: option.splits)
  show ?thesis
  proof (cases minmax)
    case (Some mm)
    with assms show ?thesis by (auto simp: edges_1d_def linspace_Fin[OF n] list_all_iff)
  next
    case None
    show ?thesis
    proof (cases "fvalues f = []")
      case True
      with None assms show ?thesis by (auto simp: edges_1d_def linspace_NaN[OF n] list_all_iff)
    next
      case False
      with None assms show ?thesis
        by (auto simp: edges_1d_def np_min_max linspace_Fin[OF n] list_all_iff)
    qed
  qed
qed

lemma edges_1d_not_decreasing:
  assumes "edges_1d f nb_bins minmax = Inr bins"
    and "case minmax of None \<Rightarrow> True | Some mm \<Rightarrow> fst mm \<le> snd mm \<or> nb_bins < 2"
  shows "\<not> decreases bins"
proof (cases minmax)
  case (Some mm)
  with assms have "fst mm \<le> snd mm \<or> nb_bins < 2"
    and "linspace (Fin (fst mm)) (Fin (snd mm)) nb_bins = Inr bins"
    by (simp_all add: edges_1d_def)
  then show ?thesis by (rule linspace_Fin_not_decreasing)
next
  case None
  show ?thesis
  proof (cases "fvalues f = []")
    case True
    with None assms(1) show ?thesis
      using linspace_Inr_iff[of NaN NaN nb_bins]
      by (auto simp: edges_1d_def linspace_NaN replicate_NaN_not_decreasing)
  next
    case False
    then have "Min (set (fvalues f)) \<le> Max (set (fvalues f)) \<or> nb_bins < 2" by simp
    moreover from None False assms(1)
    have "linspace (Fin (Min (set (fvalues f)))) (Fin (Max (set (fvalues f)))) nb_bins = Inr bins"
      by (simp add: edges_1d_def np_min_max)
    ultimately show ?thesis by (rule linspace_Fin_not_decreasing)
  qed
qed

section \<open>The cells of the one-dimensional tuning curves\<close>

lemma normalise_nth:
  "j < length count \<Longrightarrow> j < length occ \<Longrightarrow>
   normalise count occ ! j =
     (if isnan (fdiv (Fin (real_of_int (count ! j))) (Fin (real_of_int (occ ! j)))) then Fin 0
      else fdiv (Fin (real_of_int (count ! j))) (Fin (real_of_int (occ ! j))))"
  by (simp add: normalise_def)

lemma compute_1d_member:
  assumes "compute_1d_on_group vf grp f ep nb_bins minmax = Inr df"
    and "distinct (map fst grp)" and "(k, s) \<in> set grp"
  shows "\<exists>bins occupancy count.
           edges_1d f nb_bins minmax = Inr bins \<and>
           histogram (fvalues f) bins = Inr occupancy \<and>
           histogram (vf s f ep) bins = Inr count \<and>
           length occupancy = length bins - 1 \<and> length count = length bins - 1 \<and>
           cells df k = map (\<lambda>c. fmul c (Fin (rate f))) (normalise count occupancy)"
proof -
  from compute_1d_Inr[OF assms(1)] obtain bins occupancy where
    e: "edges_1d f nb_bins minmax = Inr bins"
    and h: "histogram (fvalues f) bins = Inr occupancy"
    and l: "tuning_loop bins occupancy (rate f) (group_value_from vf grp f ep)
              (DataFrame (bin_centers bins) (map fst grp)) = Inr df"
    by blast
  have d: "distinct (map fst (group_value_from vf grp f ep))"
    using assms(2) by (simp add: fst_group_value_from)
  have m: "(k, vf s f ep) \<in> set (group_value_from vf grp f ep)"
    using assms(3) by (force simp: group_value_from_def)
  from tuning_loop_member[OF l d m] obtain count where
    c: "histogram (vf s f ep) bins = Inr count"
    and cl: "cells df k = map (\<lambda>c. fmul c (Fin (rate f))) (normalise count occupancy)"
    by blast
  from e h c cl histogram_length[OF h] histogram_length[OF c] show ?thesis by blast
qed

text \<open>
  For a group that is a \<^verbatim>\<open>TsGroup\<close>: for every member of the group and every bin whose occupancy count is
  not zero, the cell of the returned table is the member's histogram count of aligned
  values over the bin edges, divided by the occupancy count of that bin and multiplied by
  the rate of the feature; the occupancy is the histogram of all the samples of the
  feature over the same edges.
\<close>

lemma normalised_rate_1d_on_group:
  assumes "compute_1d_on_group vf grp f ep nb_bins minmax = Inr df"
    and "distinct (map fst grp)" and "(k, s) \<in> set grp"
  shows "\<exists>bins occupancy count.
           edges_1d f nb_bins minmax = Inr bins \<and>
           histogram (fvalues f) bins = Inr occupancy \<and>
           histogram (vf s f ep) bins = Inr count \<and>
           length occupancy = length bins - 1 \<and> length count = length bins - 1 \<and>
           length (cells df k) = length bins - 1 \<and>
           (\<forall>j < length bins - 1. occupancy ! j \<noteq> 0 \<longrightarrow>
              cells df k ! j =
                fmul (fdiv (Fin (real_of_int (count ! j))) (Fin (real_of_int (occupancy ! j))))
                     (Fin (rate f)))"
proof -
  from compute_1d_member[OF assms] obtain bins occupancy count where
    e: "edges_1d f nb_bins minmax = Inr bins"
    and h: "histogram (fvalues f) bins = Inr occupancy"
    and c: "histogram (vf s f ep) bins = Inr count"
    and lo: "length occupancy = length bins - 1" and lc: "length count = length bins - 1"
    and cl: "cells df k = map (\<lambda>c. fmul c (Fin (rate f))) (normalise count occupancy)"
    by blast
  have len: "length (cells df k) = length bins - 1"
    by (simp add: cl length_normalise lo lc)
  have cell: "cells df k ! j =
                fmul (fdiv (Fin (real_of_int (count ! j))) (Fin (real_of_int (occupancy ! j))))
                     (Fin (rate f))"
    if "j < length bins - 1" "occupancy ! j \<noteq> 0" for j
    using that by (simp add: cl length_normalise lo lc normalise_nth)
  from e h c lo lc len cell show ?thesis by blast
qed

lemma compute_1d_returns:
  assumes "0 \<le> nb_bins"
    and "case minmax of None \<Rightarrow> True | Some mm \<Rightarrow> fst mm \<le> snd mm \<or> nb_bins < 2"
  shows "\<exists>df. compute_1d_on_group vf grp f ep nb_bins minmax = Inr df"
proof -
  from assms(1) obtain bins where e: "edges_1d f nb_bins minmax = Inr bins"
    using linspace_Inr_iff by (fastforce simp: edges_1d_def split: option.splits)
  have nd: "\<not> decreases bins" by (rule edges_1d_not_decreasing[OF e assms(2)])
  then obtain occupancy where h: "histogram (fvalues f) bins = Inr occupancy"
    by (auto simp: histogram_def)
  have "\<exists>df. tuning_loop bins occupancy (rate f) (group_value_from vf grp f ep)
              (DataFrame (bin_centers bins) (map fst grp)) = Inr df"
    by (rule tuning_loop_returns[OF nd histogram_length[OF h]])
       (simp add: DataFrame_def length_bin_centers)
  then show ?thesis
    using e h by (simp add: compute_1d_on_group_def Let_def)
qed

text \<open>
  For a group that is a \<^verbatim>\<open>TsGroup\<close>: when every aligned value is the value of a sample of the feature (what the aligner
  gives), a call with a non-negative \<open>nb_bins\<close> and bounds in order returns, whatever the
  occupancy counts are, and in every bin whose occupancy count is zero the cell of every
  member is exactly 0.
\<close>

lemma zero_occupancy_1d_on_group:
  assumes "list_all (\<lambda>(k, s). set (vf s f ep) \<subseteq> set (fvalues f)) grp"
    and "distinct (map fst grp)"
    and "0 \<le> nb_bins"
    and "case minmax of None \<Rightarrow> True | Some mm \<Rightarrow> fst mm \<le> snd mm"
  shows "\<exists>df bins occupancy.
           compute_1d_on_group vf grp f ep nb_bins minmax = Inr df \<and>
           edges_1d f nb_bins minmax = Inr bins \<and>
           histogram (fvalues f) bins = Inr occupancy \<and>
           length occupancy = length bins - 1 \<and>
           (\<forall>j < length occupancy. occupancy ! j = 0 \<longrightarrow>
              list_all (\<lambda>(k, s). cells df k ! j = Fin 0) grp)"
proof -
  from assms(4) have b: "case minmax of None \<Rightarrow> True | Some mm \<Rightarrow> fst mm \<le> snd mm \<or> nb_bins < 2"
    by (auto split: option.splits)
  from compute_1d_returns[OF assms(3) b] obtain df where
    r: "compute_1d_on_group vf grp f ep nb_bins minmax = Inr df" by blast
  from compute_1d_Inr[OF r] obtain bins occupancy where
    e: "edges_1d f nb_bins minmax = Inr bins"
    and h: "histogram (fvalues f) bins = Inr occupancy"
    by blast
  have lo: "length occupancy = length bins - 1" by (rule histogram_length[OF h])
  have zero: "cells df k ! j = Fin 0"
    if j: "j < length occupancy" and z: "occupancy ! j = 0" and m: "(k, s) \<in> set grp" for j k s
  proof -
    from compute_1d_member[OF r assms(2) m] e h obtain count where
      c: "histogram (vf s f ep) bins = Inr count"
      and lc: "length count = length bins - 1"
      and cl: "cells df k = map (\<lambda>c. fmul c (Fin (rate f))) (normalise count occupancy)"
      by auto
    from assms(1) m have sub: "set (vf s f ep) \<subseteq> set (fvalues f)"
      by (auto simp: list_all_iff)
    have "count ! j = 0"
      by (rule histogram_zero_subset[OF h c sub edges_1d_cases[OF e] j z])
    with j z show ?thesis by (simp add: cl length_normalise lo lc normalise_nth)
  qed
  have "list_all (\<lambda>(k, s). cells df k ! j = Fin 0) grp"
    if "j < length occupancy" "occupancy ! j = 0" for j
    using zero[OF that] by (auto simp: list_all_iff)
  with r e h lo show ?thesis by blast
qed


lemma ex_occupancy: "histogram (fvalues ex_feature) [Fin 0, Fin 1, Fin 2, Fin 3] = Inr [2, 0, 1]"
  by code_simp

lemma ex_count_7:
  "histogram (value_from_closest [1/10, 19/10, 20] ex_feature ex_ep) [Fin 0, Fin 1, Fin 2, Fin 3]
     = Inr [1, 0, 1]"
  by code_simp

lemma ex_distinct: "distinct (map fst ex_group)"
  by (simp add: ex_group_def)

lemma ex_contract:
  "list_all (\<lambda>(k, s). set (value_from_closest s ex_feature ex_ep) \<subseteq> set (fvalues ex_feature)) ex_group"
  by code_simp

text \<open>
  In the example the bin between the edges 1 and 2 has the occupancy count 0 and the
  count 0 for the member 7: the cell is 0, and the quotient of the two counts times the
  rate is not a number.
\<close>

lemma normalised_rate_1d_on_group_refuted:
  "edges_1d ex_feature 4 None = Inr [Fin 0, Fin 1, Fin 2, Fin 3] \<and>
   histogram (fvalues ex_feature) [Fin 0, Fin 1, Fin 2, Fin 3] = Inr [2, 0, 1] \<and>
   histogram (value_from_closest [1/10, 19/10, 20] ex_feature ex_ep) [Fin 0, Fin 1, Fin 2, Fin 3]
     = Inr [1, 0, 1] \<and>
   (case compute_1d_on_group value_from_closest ex_group ex_feature ex_ep 4 None of
      Inl e \<Rightarrow> None | Inr df \<Rightarrow> Some (cells df 7 ! 1)) = Some (Fin 0) \<and>
   fmul (fdiv (Fin (real_of_int ([1, 0, 1] ! 1))) (Fin (real_of_int ([2, 0, 1] ! 1))))
        (Fin (rate ex_feature)) = NaN \<and>
   (case compute_1d_on_group value_from_closest ex_group ex_feature ex_ep 4 None of
      Inl e \<Rightarrow> None | Inr df \<Rightarrow> Some (cells df 7 ! 1))
     \<noteq> Some (fmul (fdiv (Fin (real_of_int ([1, 0, 1] ! 1))) (Fin (real_of_int ([2, 0, 1] ! 1))))
                  (Fin (rate ex_feature)))"
  by code_simp

lemma normalised_rate_1d_on_group_example:
  "\<exists>df. compute_1d_on_group value_from_closest ex_group ex_feature ex_ep 4 None = Inr df \<and>
        cells df 7 ! 0 = Fin 1 \<and> cells df 7 ! 2 = Fin 2"
proof -
  obtain df where r:
    "compute_1d_on_group value_from_closest ex_group ex_feature ex_ep 4 None = Inr df"
    using ex_returns
    by (cases "compute_1d_on_group value_from_closest ex_group ex_feature ex_ep 4 None") auto
  have m: "(7, [1/10, 19/10, 20]) \<in> set ex_group" by (simp add: ex_group_def)
  from normalised_rate_1d_on_group[OF r ex_distinct m] obtain bins occupancy count where
    e: "edges_1d ex_feature 4 None = Inr bins"
    and h: "histogram (fvalues ex_feature) bins = Inr occupancy"
    and c: "histogram (value_from_closest [1/10, 19/10, 20] ex_feature ex_ep) bins = Inr count"
    and cell: "\<forall>j < length bins - 1. occupancy ! j \<noteq> 0 \<longrightarrow>
              cells df 7 ! j =
                fmul (fdiv (Fin (real_of_int (count ! j))) (Fin (real_of_int (occupancy ! j))))
                     (Fin (rate ex_feature))"
    by blast
  from e have bins: "bins = [Fin 0, Fin 1, Fin 2, Fin 3]" by (simp add: ex_edges)
  from h have occ: "occupancy = [2, 0, 1]" by (simp add: bins ex_occupancy)
  from c have cnt: "count = [1, 0, 1]" by (simp add: bins ex_count_7)
  have "cells df 7 ! 0 = Fin 1" using cell by (simp add: bins occ cnt ex_feature_def)
  moreover have "cells df 7 ! 2 = Fin 2" using cell by (simp add: bins occ cnt ex_feature_def)
  ultimately show ?thesis using r by simp
qed

lemma zero_occupancy_1d_on_group_example:
  "\<exists>df. compute_1d_on_group value_from_closest ex_group ex_feature ex_ep 4 None = Inr df \<and>
        cells df 3 ! 1 = Fin 0 \<and> cells df 7 ! 1 = Fin 0"
proof -
  have n: "(0::int) \<le> 4" by simp
  have b: "case None :: (real \<times> real) option of None \<Rightarrow> True | Some mm \<Rightarrow> fst mm \<le> snd mm"
    by simp
  from zero_occupancy_1d_on_group[of value_from_closest ex_feature ex_ep ex_group 4 None,
      OF ex_contract ex_distinct n b]
  obtain df bins occupancy where
    r: "compute_1d_on_group value_from_closest ex_group ex_feature ex_ep 4 None = Inr df"
    and e: "edges_1d ex_feature 4 None = Inr bins"
    and h: "histogram (fvalues ex_feature) bins = Inr occupancy"
    and z: "\<forall>j < length occupancy. occupancy ! j = 0 \<longrightarrow>
              list_all (\<lambda>(k, s). cells df k ! j = Fin 0) ex_group"
    by blast
  from e have bins: "bins = [Fin 0, Fin 1, Fin 2, Fin 3]" by (simp add: ex_edges)
  from h have occ: "occupancy = [2, 0, 1]" by (simp add: bins ex_occupancy)
  from z have "list_all (\<lambda>(k, s). cells df k ! 1 = Fin 0) ex_group" by (simp add: occ)
  then show ?thesis using r by (simp add: ex_group_def)
qed

section \<open>Two-dimensional histograms and the loop over the group\<close>

lemma channel_edges_cases:
  "i < 2 \<Longrightarrow>
   channel_edges fc nb_bins minmax i =
     (case minmax of
        None \<Rightarrow> linspace (np_min (fvalues fc)) (np_max (fvalues fc)) nb_bins
      | Some (minx, maxx, miny, maxy) \<Rightarrow>
          if i = 0 then linspace (Fin minx) (Fin maxx) nb_bins
          else linspace (Fin miny) (Fin maxy) nb_bins)"
  by (cases i; cases "i - 1") (auto simp: channel_edges_def split: option.splits)

lemma channel_edges_Inr_iff:
  "i < 2 \<Longrightarrow> (\<exists>bins. channel_edges fc nb_bins minmax i = Inr bins) \<longleftrightarrow> 0 \<le> nb_bins"
  using linspace_Inr_iff
  by (auto simp: channel_edges_cases split: option.splits)

lemma channel_edges_error:
  "i < 2 \<Longrightarrow> channel_edges fc nb_bins minmax i = Inl e \<Longrightarrow> e = ValueError"
  by (auto simp: channel_edges_cases linspace_def Let_def split: option.splits if_splits)

lemma channel_edges_length:
  "i < 2 \<Longrightarrow> channel_edges fc nb_bins minmax i = Inr bins \<Longrightarrow> length bins = nat nb_bins"
  by (auto simp: channel_edges_cases linspace_length split: option.splits if_splits)

lemma histogram2d_error:
  "histogram2d x y xedges yedges = Inl e \<Longrightarrow> e = ValueError \<or> e = IndexError"
  by (auto simp: histogram2d_def Let_def split: if_splits)

lemma histogram2d_Inr_iff:
  "(\<exists>c. histogram2d x y xedges yedges = Inr c) \<longleftrightarrow>
     length x = length y \<and> \<not> decreases xedges \<and> \<not> decreases yedges \<and> xedges \<noteq> [] \<and> yedges \<noteq> []"
  by (auto simp: histogram2d_def Let_def)

lemma histogram2d_shape:
  assumes "histogram2d x y xedges yedges = Inr c"
  shows "length c = length xedges - 1 \<and> list_all (\<lambda>row. length row = length yedges - 1) c
         \<and> xedges \<noteq> [] \<and> yedges \<noteq> []"
  using assms by (auto simp: histogram2d_def Let_def list_all_iff split: if_splits)


lemma normalise2d_shape:
  "length (normalise2d c n r) = min (length c) (length n)"
  by (simp add: normalise2d_def)


lemma normalise2d_row_length:
  "i < length c \<Longrightarrow> i < length n \<Longrightarrow>
   length (normalise2d c n r ! i) = min (length (c ! i)) (length (n ! i))"
  by (simp add: normalise2d_def)

lemma tc_loop_error:
  "tc_loop vf fx fy ep binsx binsy occupancy r grp = Inl e \<Longrightarrow> e = ValueError \<or> e = IndexError"
proof (induction grp arbitrary: e)
  case Nil
  then show ?case by simp
next
  case (Cons p grp)
  obtain n s where p: "p = (n, s)" by (cases p)
  from Cons show ?case
    by (auto simp: p split: sum.splits dest: histogram2d_error)
qed


lemma tc_loop_returns:
  assumes "\<not> decreases binsx" "\<not> decreases binsy" "binsx \<noteq> []" "binsy \<noteq> []"
    and "list_all (\<lambda>(n, s). length (vf s fx ep) = length (vf s fy ep)) grp"
  shows "\<exists>tc. tc_loop vf fx fy ep binsx binsy occupancy r grp = Inr tc"
  using assms(5)
proof (induction grp)
  case Nil
  then show ?case by simp
next
  case (Cons p grp)
  obtain n s where p: "p = (n, s)" by (cases p)
  from Cons.prems have l: "length (vf s fx ep) = length (vf s fy ep)" by (simp add: p)
  with assms(1-4) obtain count where
    "histogram2d (vf s fx ep) (vf s fy ep) binsx binsy = Inr count"
    using histogram2d_Inr_iff[of "vf s fx ep" "vf s fy ep" binsx binsy] by auto
  moreover from Cons obtain tc where "tc_loop vf fx fy ep binsx binsy occupancy r grp = Inr tc"
    by auto
  ultimately show ?case by (simp add: p)
qed

lemma compute_2d_Inr:
  assumes "compute_2d_on_group vf grp f ep nb_bins minmax = Inr (tc, xy)"
  shows "length (channels f) = 2 \<and>
         (\<exists>binsx binsy occupancy.
            channel_edges (channel_series f (snd (channels f ! 0))) nb_bins minmax 0 = Inr binsx \<and>
            channel_edges (channel_series f (snd (channels f ! 1))) nb_bins minmax 1 = Inr binsy \<and>
            histogram2d (fvalues (channel_series f (snd (channels f ! 0))))
                        (fvalues (channel_series f (snd (channels f ! 1)))) binsx binsy = Inr occupancy \<and>
            tc_loop vf (channel_series f (snd (channels f ! 0))) (channel_series f (snd (channels f ! 1)))
                    ep binsx binsy occupancy (frame_rate f) grp = Inr tc \<and>
            xy = [bin_centers binsx, bin_centers binsy])"
  using assms
  by (auto simp: compute_2d_on_group_def Let_def split: if_splits sum.splits)

lemma compute_2d_error:
  assumes "compute_2d_on_group vf grp f ep nb_bins minmax = Inl e"
  shows "(e = RuntimeError \<and> length (channels f) \<noteq> 2) \<or>
         ((e = ValueError \<or> e = IndexError) \<and> length (channels f) = 2)"
proof (cases "length (channels f) = 2")
  case False
  with assms show ?thesis by (simp add: compute_2d_on_group_def)
next
  case True
  have "e = ValueError \<or> e = IndexError"
    using assms True
    by (auto simp: compute_2d_on_group_def Let_def split: sum.splits
        dest: channel_edges_error[rotated] histogram2d_error tc_loop_error)
  with True show ?thesis by simp
qed

section \<open>The error of the two-dimensional tuning curves\<close>

lemma channel_edges_None: "channel_edges fc nb_bins None i = edges_1d fc nb_bins None"
  by (simp add: channel_edges_def edges_1d_def)

lemma channel_edges_not_decreasing:
  assumes "i < 2" and "channel_edges fc nb_bins minmax i = Inr bins"
    and "case minmax of None \<Rightarrow> True
         | Some (minx, maxx, miny, maxy) \<Rightarrow> minx \<le> maxx \<and> miny \<le> maxy"
  shows "\<not> decreases bins"
proof (cases minmax)
  case None
  with assms(2) have "edges_1d fc nb_bins None = Inr bins" by (simp add: channel_edges_None)
  then show ?thesis by (rule edges_1d_not_decreasing) simp
next
  case (Some mm)
  obtain minx maxx miny maxy where mm: "mm = (minx, maxx, miny, maxy)" by (cases mm)
  show ?thesis
  proof (cases "i = 0")
    case True
    with assms Some mm have "minx \<le> maxx \<or> nb_bins < 2"
      and "linspace (Fin minx) (Fin maxx) nb_bins = Inr bins"
      by (simp_all add: channel_edges_cases)
    then show ?thesis by (rule linspace_Fin_not_decreasing)
  next
    case False
    with assms Some mm have "miny \<le> maxy \<or> nb_bins < 2"
      and "linspace (Fin miny) (Fin maxy) nb_bins = Inr bins"
      by (simp_all add: channel_edges_cases)
    then show ?thesis by (rule linspace_Fin_not_decreasing)
  qed
qed

lemma wf_frame_length:
  assumes "wf_frame f" and "i < length (channels f)"
  shows "length (fvalues (channel_series f (snd (channels f ! i)))) = length (times f)"
proof -
  from assms(2) have "channels f ! i \<in> set (channels f)" by simp
  with assms(1) have "length (snd (channels f ! i)) = length (times f)"
    by (auto simp: wf_frame_def list_all_iff)
  then show ?thesis by (simp add: fvalues_def channel_series_def)
qed


lemma compute_2d_returns:
  assumes c2: "length (channels f) = 2" and nb: "1 \<le> nb_bins" and wf: "wf_frame f"
    and mm: "case minmax of None \<Rightarrow> True
         | Some (minx, maxx, miny, maxy) \<Rightarrow> minx \<le> maxx \<and> miny \<le> maxy"
    and al: "list_all (\<lambda>(n, s). length (vf s (channel_series f (snd (channels f ! 0))) ep)
                          = length (vf s (channel_series f (snd (channels f ! 1))) ep)) grp"
  shows "\<exists>tc xy. compute_2d_on_group vf grp f ep nb_bins minmax = Inr (tc, xy)"
proof -
  define fx where "fx = channel_series f (snd (channels f ! 0))"
  define fy where "fy = channel_series f (snd (channels f ! 1))"
  from nb have n0: "0 \<le> nb_bins" by simp
  obtain binsx where ex: "channel_edges fx nb_bins minmax 0 = Inr binsx"
    using channel_edges_Inr_iff[of 0 fx nb_bins minmax] n0 by auto
  obtain binsy where ey: "channel_edges fy nb_bins minmax 1 = Inr binsy"
    using channel_edges_Inr_iff[of 1 fy nb_bins minmax] n0 by auto
  have ndx: "\<not> decreases binsx" using channel_edges_not_decreasing[OF _ ex mm] by simp
  have ndy: "\<not> decreases binsy" using channel_edges_not_decreasing[OF _ ey mm] by simp
  have nex: "binsx \<noteq> []" using channel_edges_length[OF _ ex] nb by auto
  have ney: "binsy \<noteq> []" using channel_edges_length[OF _ ey] nb by auto
  have len: "length (fvalues fx) = length (fvalues fy)"
    using wf_frame_length[OF wf, of 0] wf_frame_length[OF wf, of 1] c2
    by (simp add: fx_def fy_def)
  obtain occupancy where h: "histogram2d (fvalues fx) (fvalues fy) binsx binsy = Inr occupancy"
    using histogram2d_Inr_iff[of "fvalues fx" "fvalues fy" binsx binsy] len ndx ndy nex ney
    by auto
  from al have al': "list_all (\<lambda>(n, s). length (vf s fx ep) = length (vf s fy ep)) grp"
    by (simp add: fx_def fy_def)
  obtain tc where t: "tc_loop vf fx fy ep binsx binsy occupancy (frame_rate f) grp = Inr tc"
    using tc_loop_returns[where vf=vf and fx=fx and fy=fy and ep=ep, OF ndx ndy nex ney al'] by blast
  show ?thesis
    using c2 ex ey h t unfolding fx_def fy_def
    by (simp add: compute_2d_on_group_def Let_def)
qed

text \<open>
  For a group that is a \<^verbatim>\<open>TsGroup\<close>: \<^verbatim>\<open>compute_2d_on_group\<close> fails with the module's own error (the
  \<open>RuntimeError\<close> that the specification calls InvalidDimension) exactly when the feature
  has not two columns. That is the only condition on the shape of the input under which
  the tuning-curve computations raise: with at least one edge per axis, bounds in order,
  a well-formed frame and an aligner that gives a member as many values on one column as
  on the other, the two-dimensional computation raises exactly when the feature has not
  two columns, and the one-dimensional computation never raises.
\<close>

lemma invalid_dimension_2d_on_group:
  "(compute_2d_on_group vf grp f ep nb_bins minmax = Inl RuntimeError
      \<longleftrightarrow> length (channels f) \<noteq> 2) \<and>
   (1 \<le> nb_bins \<and> wf_frame f \<and>
    (case minmax of None \<Rightarrow> True
     | Some (minx, maxx, miny, maxy) \<Rightarrow> minx \<le> maxx \<and> miny \<le> maxy) \<and>
    list_all (\<lambda>(n, s). length (vf s (channel_series f (snd (channels f ! 0))) ep)
                      = length (vf s (channel_series f (snd (channels f ! 1))) ep)) grp
    \<longrightarrow> ((\<exists>e. compute_2d_on_group vf grp f ep nb_bins minmax = Inl e)
           \<longleftrightarrow> length (channels f) \<noteq> 2)) \<and>
   (0 \<le> nb_bins \<and> (case minmax' of None \<Rightarrow> True | Some m \<Rightarrow> fst m \<le> snd m)
    \<longrightarrow> (\<exists>df. compute_1d_on_group vf' grp' f' ep nb_bins minmax' = Inr df))"
proof -
  have a: "compute_2d_on_group vf grp f ep nb_bins minmax = Inl RuntimeError
             \<longleftrightarrow> length (channels f) \<noteq> 2"
    using compute_2d_error[of vf grp f ep nb_bins minmax RuntimeError]
    by (auto simp: compute_2d_on_group_def)
  have b: "(\<exists>e. compute_2d_on_group vf grp f ep nb_bins minmax = Inl e)
             \<longleftrightarrow> length (channels f) \<noteq> 2"
    if h: "1 \<le> nb_bins" "wf_frame f"
      "case minmax of None \<Rightarrow> True
       | Some (minx, maxx, miny, maxy) \<Rightarrow> minx \<le> maxx \<and> miny \<le> maxy"
      "list_all (\<lambda>(n, s). length (vf s (channel_series f (snd (channels f ! 0))) ep)
                      = length (vf s (channel_series f (snd (channels f ! 1))) ep)) grp"
  proof
    assume "\<exists>e. compute_2d_on_group vf grp f ep nb_bins minmax = Inl e"
    then obtain e where e: "compute_2d_on_group vf grp f ep nb_bins minmax = Inl e" ..
    show "length (channels f) \<noteq> 2"
    proof
      assume "length (channels f) = 2"
      from compute_2d_returns[where vf=vf and ep=ep, OF this h] e show False by auto
    qed
  next
    assume "length (channels f) \<noteq> 2"
    with a show "\<exists>e. compute_2d_on_group vf grp f ep nb_bins minmax = Inl e" by blast
  qed
  have c: "\<exists>df. compute_1d_on_group vf' grp' f' ep nb_bins minmax' = Inr df"
    if "0 \<le> nb_bins" "case minmax' of None \<Rightarrow> True | Some m \<Rightarrow> fst m \<le> snd m"
    by (rule compute_1d_returns) (use that in \<open>auto split: option.splits\<close>)
  from a b c show ?thesis by blast
qed


text \<open>The frame of three columns raises; the frame of two columns and the feature do not.\<close>

lemma ex_frame_wf: "wf_frame ex_frame"
  by code_simp

lemma ex_frame_aligned:
  "list_all (\<lambda>(n, s). length (value_from_closest s (channel_series ex_frame (snd (channels ex_frame ! 0))) ex_ep)
                      = length (value_from_closest s (channel_series ex_frame (snd (channels ex_frame ! 1))) ex_ep))
     ex_group"
  by code_simp

lemma invalid_dimension_2d_on_group_example:
  "compute_2d_on_group value_from_closest ex_group ex_frame3 ex_ep 3 None = Inl RuntimeError \<and>
   length (channels ex_frame3) = 3 \<and>
   (\<nexists>e. compute_2d_on_group value_from_closest ex_group ex_frame ex_ep 3 None = Inl e) \<and>
   length (channels ex_frame) = 2 \<and>
   (\<exists>df. compute_1d_on_group value_from_closest ex_group ex_feature ex_ep 3 None = Inr df)"
proof -
  have l3: "length (channels ex_frame3) = 3" by (simp add: ex_frame3_def)
  have l2: "length (channels ex_frame) = 2" by (simp add: ex_frame_def)
  have n: "(1::int) \<le> 3" "(0::int) \<le> 3" by simp_all
  have b: "case None :: (real \<times> real \<times> real \<times> real) option of None \<Rightarrow> True
           | Some (minx, maxx, miny, maxy) \<Rightarrow> minx \<le> maxx \<and> miny \<le> maxy" by simp
  have b1: "case None :: (real \<times> real) option of None \<Rightarrow> True | Some m \<Rightarrow> fst m \<le> snd m"
    by simp
  have "compute_2d_on_group value_from_closest ex_group ex_frame3 ex_ep 3 None = Inl RuntimeError"
    using invalid_dimension_2d_on_group[where vf = value_from_closest and grp = ex_group and f = ex_frame3
        and ep = ex_ep and nb_bins = 3 and minmax = None and vf' = value_from_closest
        and grp' = ex_group and f' = ex_feature and minmax' = None] l3 by simp
  moreover have "\<nexists>e. compute_2d_on_group value_from_closest ex_group ex_frame ex_ep 3 None = Inl e"
    using invalid_dimension_2d_on_group[where vf = value_from_closest and grp = ex_group and f = ex_frame
        and ep = ex_ep and nb_bins = 3 and minmax = None and vf' = value_from_closest
        and grp' = ex_group and f' = ex_feature and minmax' = None] l2 ex_frame_wf ex_frame_aligned
    by simp
  moreover have "\<exists>df. compute_1d_on_group value_from_closest ex_group ex_feature ex_ep 3 None = Inr df"
    using invalid_dimension_2d_on_group[where vf = value_from_closest and grp = ex_group and f = ex_frame
        and ep = ex_ep and nb_bins = 3 and minmax = None and vf' = value_from_closest
        and grp' = ex_group and f' = ex_feature and minmax' = None] by simp
  ultimately show ?thesis using l2 l3 by simp
qed

section \<open>Edges, shape and empty bins of the two-dimensional tuning curves\<close>

lemma linspace_Fin_ends:
  assumes "2 \<le> n" and "linspace (Fin a) (Fin b) n = Inr bins"
  shows "hd bins = Fin a \<and> last bins = Fin b \<and> length bins = nat n \<and>
         (\<forall>i < nat n. bins ! i = Fin (a + real i * ((b - a) / (real (nat n) - 1))))"
proof -
  from assms(1) have n: "0 \<le> n" by simp
  have bins: "bins = map (\<lambda>i. Fin (a + real i * ((b - a) / (real (nat n) - 1)))) [0..<nat n]"
    using assms(2) by (simp add: linspace_Fin[OF n])
  from assms(1) have pos: "0 < nat n" and d: "real (nat n - 1) = real (nat n) - 1"
    and d0: "real (nat n) - 1 \<noteq> 0"
    by auto
  have ne: "[0..<nat n] \<noteq> []" using pos by simp
  have h: "hd bins = Fin a" using pos by (simp add: bins hd_map[OF ne])
  have "last bins = Fin (a + real (nat n - 1) * ((b - a) / (real (nat n) - 1)))"
    using pos by (simp add: bins last_map[OF ne])
  also have "\<dots> = Fin (a + (real (nat n) - 1) * ((b - a) / (real (nat n) - 1)))"
    by (simp only: d)
  also have "\<dots> = Fin b" using d0 by simp
  finally have l: "last bins = Fin b" .
  from h l show ?thesis by (simp add: bins)
qed

lemma linspace_NaN_ends:
  assumes "2 \<le> n" and "linspace NaN NaN n = Inr bins"
  shows "hd bins = NaN \<and> last bins = NaN \<and> length bins = nat n"
proof -
  from assms(1) have n: "0 \<le> n" and pos: "0 < nat n" by simp_all
  from assms(2) have "bins = replicate (nat n) NaN" by (simp add: linspace_NaN[OF n])
  with pos show ?thesis by (cases "nat n") auto
qed

lemma np_min_max_cases:
  "(np_min xs = NaN \<and> np_max xs = NaN \<and> xs = []) \<or>
   (np_min xs = Fin (Min (set xs)) \<and> np_max xs = Fin (Max (set xs)) \<and> xs \<noteq> [])"
  using np_min_max[of xs] by (cases "xs = []") auto

lemma channel_edges_ends_None:
  assumes "2 \<le> nb_bins" and "channel_edges fc nb_bins None i = Inr bins"
  shows "hd bins = np_min (fvalues fc) \<and> last bins = np_max (fvalues fc) \<and>
         length bins = nat nb_bins"
proof -
  from assms(2) have l: "linspace (np_min (fvalues fc)) (np_max (fvalues fc)) nb_bins = Inr bins"
    by (simp add: channel_edges_def)
  from np_min_max_cases[of "fvalues fc"] show ?thesis
  proof
    assume a: "np_min (fvalues fc) = NaN \<and> np_max (fvalues fc) = NaN \<and> fvalues fc = []"
    with l have "linspace NaN NaN nb_bins = Inr bins" by simp
    from linspace_NaN_ends[OF assms(1) this] a show ?thesis by simp
  next
    assume a: "np_min (fvalues fc) = Fin (Min (set (fvalues fc))) \<and>
               np_max (fvalues fc) = Fin (Max (set (fvalues fc))) \<and> fvalues fc \<noteq> []"
    with l have "linspace (Fin (Min (set (fvalues fc)))) (Fin (Max (set (fvalues fc)))) nb_bins
                   = Inr bins" by simp
    from linspace_Fin_ends[OF assms(1) this] a show ?thesis by simp
  qed
qed

text \<open>
  In \<^verbatim>\<open>compute_2d_on_group\<close> with at least two edges per axis, the first
  column has \<open>nb_bins\<close> edges from \<open>minX\<close> to \<open>maxX\<close> and the second column \<open>nb_bins\<close>
  edges from \<open>minY\<close> to \<open>maxY\<close> when the caller gives the bounds
  \<open>(minX, maxX, minY, maxY)\<close>, evenly spaced; with no bounds the edges of each column go
  from the least to the greatest sample of that column. The bin centres that a call
  returns are the centres of these edges.
\<close>

lemma edges_2d_bounds_base:
  assumes "2 \<le> nb_bins" and "length (channels f) = 2"
  shows "\<exists>binsx binsy.
           channel_edges (channel_series f (snd (channels f ! 0))) nb_bins minmax 0 = Inr binsx \<and>
           channel_edges (channel_series f (snd (channels f ! 1))) nb_bins minmax 1 = Inr binsy \<and>
           length binsx = nat nb_bins \<and> length binsy = nat nb_bins \<and>
           (case minmax of
              Some (minX, maxX, minY, maxY) \<Rightarrow>
                hd binsx = Fin minX \<and> last binsx = Fin maxX \<and>
                hd binsy = Fin minY \<and> last binsy = Fin maxY \<and>
                (\<forall>i < nat nb_bins.
                   binsx ! i = Fin (minX + real i * ((maxX - minX) / (real (nat nb_bins) - 1))) \<and>
                   binsy ! i = Fin (minY + real i * ((maxY - minY) / (real (nat nb_bins) - 1))))
            | None \<Rightarrow>
                hd binsx = np_min (fvalues (channel_series f (snd (channels f ! 0)))) \<and>
                last binsx = np_max (fvalues (channel_series f (snd (channels f ! 0)))) \<and>
                hd binsy = np_min (fvalues (channel_series f (snd (channels f ! 1)))) \<and>
                last binsy = np_max (fvalues (channel_series f (snd (channels f ! 1))))) \<and>
           (\<forall>tc xy. compute_2d_on_group vf grp f ep nb_bins minmax = Inr (tc, xy)
                      \<longrightarrow> xy = [bin_centers binsx, bin_centers binsy])"
proof -
  define fx where "fx = channel_series f (snd (channels f ! 0))"
  define fy where "fy = channel_series f (snd (channels f ! 1))"
  from assms(1) have n0: "0 \<le> nb_bins" by simp
  obtain binsx where ex: "channel_edges fx nb_bins minmax 0 = Inr binsx"
    using channel_edges_Inr_iff[of 0 fx nb_bins minmax] n0 by auto
  obtain binsy where ey: "channel_edges fy nb_bins minmax 1 = Inr binsy"
    using channel_edges_Inr_iff[of 1 fy nb_bins minmax] n0 by auto
  have lx: "length binsx = nat nb_bins" using channel_edges_length[OF _ ex] by simp
  have ly: "length binsy = nat nb_bins" using channel_edges_length[OF _ ey] by simp
  have ends: "case minmax of
              Some (minX, maxX, minY, maxY) \<Rightarrow>
                hd binsx = Fin minX \<and> last binsx = Fin maxX \<and>
                hd binsy = Fin minY \<and> last binsy = Fin maxY \<and>
                (\<forall>i < nat nb_bins.
                   binsx ! i = Fin (minX + real i * ((maxX - minX) / (real (nat nb_bins) - 1))) \<and>
                   binsy ! i = Fin (minY + real i * ((maxY - minY) / (real (nat nb_bins) - 1))))
            | None \<Rightarrow>
                hd binsx = np_min (fvalues fx) \<and> last binsx = np_max (fvalues fx) \<and>
                hd binsy = np_min (fvalues fy) \<and> last binsy = np_max (fvalues fy)"
  proof (cases minmax)
    case None
    from ex ey channel_edges_ends_None[OF assms(1), of fx 0 binsx]
      channel_edges_ends_None[OF assms(1), of fy 1 binsy]
    show ?thesis by (simp add: None)
  next
    case (Some mm)
    obtain minX maxX minY maxY where mm: "mm = (minX, maxX, minY, maxY)" by (cases mm)
    from ex have "linspace (Fin minX) (Fin maxX) nb_bins = Inr binsx"
      by (simp add: channel_edges_cases Some mm)
    note x = linspace_Fin_ends[OF assms(1) this]
    from ey have "linspace (Fin minY) (Fin maxY) nb_bins = Inr binsy"
      by (simp add: channel_edges_cases Some mm)
    note y = linspace_Fin_ends[OF assms(1) this]
    from x y show ?thesis by (simp add: Some mm)
  qed
  have cen: "xy = [bin_centers binsx, bin_centers binsy]"
    if "compute_2d_on_group vf grp f ep nb_bins minmax = Inr (tc, xy)" for tc xy
    using compute_2d_Inr[OF that] ex ey by (auto simp: fx_def fy_def)
  from ex ey lx ly ends cen show ?thesis unfolding fx_def fy_def by blast
qed


lemma edges_2d_bounds_base_example:
  "\<exists>binsx binsy.
     channel_edges (channel_series ex_frame (snd (channels ex_frame ! 0))) 3 (Some (0, 4, 1, 3)) 0
       = Inr binsx \<and>
     channel_edges (channel_series ex_frame (snd (channels ex_frame ! 1))) 3 (Some (0, 4, 1, 3)) 1
       = Inr binsy \<and>
     hd binsx = Fin 0 \<and> last binsx = Fin 4 \<and> hd binsy = Fin 1 \<and> last binsy = Fin 3 \<and>
     binsx ! 1 = Fin 2 \<and> binsy ! 1 = Fin 2"
proof -
  have n: "(2::int) \<le> 3" by simp
  have l: "length (channels ex_frame) = 2" by (simp add: ex_frame_def)
  from edges_2d_bounds_base[where vf = value_from_closest and grp = ex_group and ep = ex_ep
      and minmax = "Some (0, 4, 1, 3)", OF n l]
  obtain binsx binsy where
    "channel_edges (channel_series ex_frame (snd (channels ex_frame ! 0))) 3 (Some (0, 4, 1, 3)) 0
       = Inr binsx"
    "channel_edges (channel_series ex_frame (snd (channels ex_frame ! 1))) 3 (Some (0, 4, 1, 3)) 1
       = Inr binsy"
    "hd binsx = Fin 0 \<and> last binsx = Fin 4 \<and> hd binsy = Fin 1 \<and> last binsy = Fin 3 \<and>
     (\<forall>i < nat 3.
        binsx ! i = Fin (0 + real i * ((4 - 0) / (real (nat 3) - 1))) \<and>
        binsy ! i = Fin (1 + real i * ((3 - 1) / (real (nat 3) - 1))))"
    by auto
  then show ?thesis by (intro exI[of _ binsx] exI[of _ binsy]) simp
qed

lemma normalise2d_rows:
  assumes "list_all (\<lambda>row. length row = m) c" and "list_all (\<lambda>row. length row = m) n"
  shows "list_all (\<lambda>row. length row = m) (normalise2d c n r)"
  using assms
  by (auto simp: list_all_length normalise2d_shape normalise2d_row_length)

lemma tc_loop_keys:
  "tc_loop vf fx fy ep binsx binsy occupancy r grp = Inr tc \<Longrightarrow> map fst tc = map fst grp"
proof (induction grp arbitrary: tc)
  case Nil
  then show ?case by simp
next
  case (Cons p grp)
  obtain n s where p: "p = (n, s)" by (cases p)
  from Cons show ?case by (auto simp: p split: sum.splits)
qed

lemma tc_loop_shape:
  assumes "tc_loop vf fx fy ep binsx binsy occupancy r grp = Inr tc"
    and "length occupancy = length binsx - 1"
    and "list_all (\<lambda>row. length row = length binsy - 1) occupancy"
  shows "list_all (\<lambda>(n, a). length a = length binsx - 1 \<and>
                              list_all (\<lambda>row. length row = length binsy - 1) a) tc"
  using assms(1)
proof (induction grp arbitrary: tc)
  case Nil
  then show ?case by simp
next
  case (Cons p grp)
  obtain n s where p: "p = (n, s)" by (cases p)
  from Cons.prems obtain count tc' where
    h: "histogram2d (vf s fx ep) (vf s fy ep) binsx binsy = Inr count"
    and rest: "tc_loop vf fx fy ep binsx binsy occupancy r grp = Inr tc'"
    and tc: "tc = (n, normalise2d count occupancy r) # tc'"
    by (auto simp: p split: sum.splits)
  from histogram2d_shape[OF h] assms(2,3)
  have "length (normalise2d count occupancy r) = length binsx - 1"
    and "list_all (\<lambda>row. length row = length binsy - 1) (normalise2d count occupancy r)"
    by (simp_all add: normalise2d_shape normalise2d_rows)
  with Cons.IH[OF rest] show ?case by (simp add: tc)
qed

text \<open>
  A call of \<^verbatim>\<open>compute_2d_on_group\<close> on a well-formed feature of two columns, with
  at least one edge per axis, bounds in order and an aligner that gives a member as many
  values on one column as on the other, returns; and every call that returns gives a
  dictionary with the identifiers of the group as its keys, each with an array of
  \<open>nb_bins - 1\<close> rows of \<open>nb_bins - 1\<close> cells, and two arrays of \<open>nb_bins - 1\<close> bin centres,
  one per column.
\<close>

lemma result_shape_2d_base:
  "(length (channels f) = 2 \<and> 1 \<le> nb_bins \<and> wf_frame f \<and>
    (case minmax of None \<Rightarrow> True
     | Some (minx, maxx, miny, maxy) \<Rightarrow> minx \<le> maxx \<and> miny \<le> maxy) \<and>
    list_all (\<lambda>(n, s). length (vf s (channel_series f (snd (channels f ! 0))) ep)
                      = length (vf s (channel_series f (snd (channels f ! 1))) ep)) grp
    \<longrightarrow> (\<exists>tc xy. compute_2d_on_group vf grp f ep nb_bins minmax = Inr (tc, xy))) \<and>
   (\<forall>tc xy. compute_2d_on_group vf grp f ep nb_bins minmax = Inr (tc, xy) \<longrightarrow>
      1 \<le> nb_bins \<and>
      map fst tc = map fst grp \<and>
      list_all (\<lambda>(n, a). length a = nat (nb_bins - 1) \<and>
                          list_all (\<lambda>row. length row = nat (nb_bins - 1)) a) tc \<and>
      length xy = 2 \<and>
      list_all (\<lambda>c. length c = nat (nb_bins - 1)) xy)"
proof -
  have ret: "\<exists>tc xy. compute_2d_on_group vf grp f ep nb_bins minmax = Inr (tc, xy)"
    if "length (channels f) = 2" "1 \<le> nb_bins" "wf_frame f"
      "case minmax of None \<Rightarrow> True
       | Some (minx, maxx, miny, maxy) \<Rightarrow> minx \<le> maxx \<and> miny \<le> maxy"
      "list_all (\<lambda>(n, s). length (vf s (channel_series f (snd (channels f ! 0))) ep)
                      = length (vf s (channel_series f (snd (channels f ! 1))) ep)) grp"
    by (rule compute_2d_returns[where vf=vf and ep=ep, OF that])
  have shape: "1 \<le> nb_bins \<and> map fst tc = map fst grp \<and>
      list_all (\<lambda>(n, a). length a = nat (nb_bins - 1) \<and>
                          list_all (\<lambda>row. length row = nat (nb_bins - 1)) a) tc \<and>
      length xy = 2 \<and> list_all (\<lambda>c. length c = nat (nb_bins - 1)) xy"
    if r: "compute_2d_on_group vf grp f ep nb_bins minmax = Inr (tc, xy)" for tc xy
  proof -
    define fx where "fx = channel_series f (snd (channels f ! 0))"
    define fy where "fy = channel_series f (snd (channels f ! 1))"
    from compute_2d_Inr[OF r] obtain binsx binsy occupancy where
      ex: "channel_edges fx nb_bins minmax 0 = Inr binsx"
      and ey: "channel_edges fy nb_bins minmax 1 = Inr binsy"
      and h: "histogram2d (fvalues fx) (fvalues fy) binsx binsy = Inr occupancy"
      and t: "tc_loop vf fx fy ep binsx binsy occupancy (frame_rate f) grp = Inr tc"
      and xy: "xy = [bin_centers binsx, bin_centers binsy]"
      unfolding fx_def fy_def by blast
    have lx: "length binsx = nat nb_bins" using channel_edges_length[OF _ ex] by simp
    have ly: "length binsy = nat nb_bins" using channel_edges_length[OF _ ey] by simp
    from histogram2d_shape[OF h] have oc: "length occupancy = length binsx - 1"
      "list_all (\<lambda>row. length row = length binsy - 1) occupancy" "binsx \<noteq> []"
      by simp_all
    from oc(3) lx have nb: "1 \<le> nb_bins" by (cases "nb_bins \<le> 0") auto
    then have m: "nat nb_bins - 1 = nat (nb_bins - 1)" by (simp add: nat_diff_distrib)
    from tc_loop_shape[OF t oc(1,2)]
    have "list_all (\<lambda>(n, a). length a = nat (nb_bins - 1) \<and>
                          list_all (\<lambda>row. length row = nat (nb_bins - 1)) a) tc"
      unfolding lx ly m .
    moreover have "list_all (\<lambda>c. length c = nat (nb_bins - 1)) xy"
      unfolding xy using m by (simp add: length_bin_centers lx ly)
    ultimately show ?thesis using nb tc_loop_keys[OF t] by (simp add: xy)
  qed
  from ret shape show ?thesis by blast
qed


lemma result_shape_2d_base_example:
  "\<exists>tc xy. compute_2d_on_group value_from_closest ex_group ex_frame ex_ep 3 None = Inr (tc, xy) \<and>
     map fst tc = [3, 7] \<and>
     list_all (\<lambda>(n, a). length a = 2 \<and> list_all (\<lambda>row. length row = 2) a) tc \<and>
     length xy = 2 \<and> list_all (\<lambda>c. length c = 2) xy"
proof -
  note th = result_shape_2d_base[where vf = value_from_closest and grp = ex_group and f = ex_frame
      and ep = ex_ep and nb_bins = 3 and minmax = None]
  have l: "length (channels ex_frame) = 2" by (simp add: ex_frame_def)
  from th l ex_frame_wf ex_frame_aligned obtain tc xy where
    r: "compute_2d_on_group value_from_closest ex_group ex_frame ex_ep 3 None = Inr (tc, xy)"
    by auto
  with th have "map fst tc = map fst ex_group \<and>
      list_all (\<lambda>(n, a). length a = nat (3 - 1) \<and>
                          list_all (\<lambda>row. length row = nat (3 - 1)) a) tc \<and>
      length xy = 2 \<and> list_all (\<lambda>c. length c = nat (3 - 1)) xy"
    by blast
  with r show ?thesis by (simp add: ex_group_def)
qed





lemma ex_edges_x:
  "channel_edges (channel_series ex_frame (snd (channels ex_frame ! 0))) 3 None 0
     = Inr [Fin 0, Fin (3/2), Fin 3]"
  by code_simp

lemma ex_edges_y:
  "channel_edges (channel_series ex_frame (snd (channels ex_frame ! 1))) 3 None 1
     = Inr [Fin 1, Fin (3/2), Fin 2]"
  by code_simp




section \<open>Bits per second and bits per event\<close>

lemma length_tc_columns: "length (tc_columns tc) = length (tc_fx tc)"
  by (cases tc) auto

lemma compute_mi_Inr:
  assumes "compute_mutual_information_1d tc f ep minmax bitssecond = Inr res"
  shows "\<exists>bins occ.
           edges_1d f (int (tc_rows tc) + 1) minmax = Inr bins \<and>
           histogram (fvalues (restrict f ep)) bins = Inr occ \<and>
           length occ = tc_rows tc \<and>
           res = zip (tc_columns tc)
                   (map (\<lambda>fx. if bitssecond then spatial_information (occupancy_probability occ) fx
                              else fdiv (spatial_information (occupancy_probability occ) fx)
                                        (mean_rate (occupancy_probability occ) fx))
                        (tc_fx tc))"
proof -
  from assms obtain bins occ where
    e: "edges_1d f (int (tc_rows tc) + 1) minmax = Inr bins"
    and h: "histogram (fvalues (restrict f ep)) bins = Inr occ"
    and r: "res = zip (tc_columns tc)
                   (map (\<lambda>fx. if bitssecond then spatial_information (occupancy_probability occ) fx
                              else fdiv (spatial_information (occupancy_probability occ) fx)
                                        (mean_rate (occupancy_probability occ) fx))
                        (tc_fx tc))"
    by (auto simp: compute_mutual_information_1d_def Let_def split: sum.splits)
  have "length occ = tc_rows tc"
    using histogram_length[OF h] edges_1d_length[OF e] by simp
  with e h r show ?thesis by blast
qed

lemma compute_mi_nth:
  assumes "compute_mutual_information_1d tc f ep minmax bitssecond = Inr res"
    and "histogram (fvalues (restrict f ep)) bins = Inr occ"
    and "edges_1d f (int (tc_rows tc) + 1) minmax = Inr bins"
    and "k < length (tc_fx tc)"
  shows "length res = length (tc_fx tc) \<and> fst (res ! k) = tc_columns tc ! k \<and>
         snd (res ! k) =
           (if bitssecond then spatial_information (occupancy_probability occ) (tc_fx tc ! k)
            else fdiv (spatial_information (occupancy_probability occ) (tc_fx tc ! k))
                      (mean_rate (occupancy_probability occ) (tc_fx tc ! k)))"
  using compute_mi_Inr[OF assms(1)] assms(2-4)
  by (auto simp: length_tc_columns)

text \<open>
  C9: for every tuning curve, feature, interval set and bounds for which the call with
  \<^verbatim>\<open>bitssecond=True\<close> returns, the call with \<^verbatim>\<open>bitssecond=False\<close> returns a table with
  the same labels, and for every member whose mean rate is a strictly positive number
  its value is the value in bits per second divided by that mean rate.
\<close>

theorem bits_per_event:
  assumes "compute_mutual_information_1d tc f ep minmax True = Inr per_second"
  shows "\<exists>bins occ per_event.
           edges_1d f (int (tc_rows tc) + 1) minmax = Inr bins \<and>
           histogram (fvalues (restrict f ep)) bins = Inr occ \<and>
           compute_mutual_information_1d tc f ep minmax False = Inr per_event \<and>
           length per_second = length (tc_fx tc) \<and>
           map fst per_event = map fst per_second \<and>
           (\<forall>k < length (tc_fx tc). \<forall>r.
              mean_rate (occupancy_probability occ) (tc_fx tc ! k) = Fin r \<and> 0 < r \<longrightarrow>
                snd (per_event ! k) = fdiv (snd (per_second ! k)) (Fin r) \<and>
                (\<forall>v. snd (per_second ! k) = Fin v \<longrightarrow> snd (per_event ! k) = Fin (v / r)))"
proof -
  from compute_mi_Inr[OF assms] obtain bins occ where
    e: "edges_1d f (int (tc_rows tc) + 1) minmax = Inr bins"
    and h: "histogram (fvalues (restrict f ep)) bins = Inr occ"
    and s: "per_second = zip (tc_columns tc)
              (map (\<lambda>fx. spatial_information (occupancy_probability occ) fx) (tc_fx tc))"
    by auto
  define per_event where "per_event = zip (tc_columns tc)
              (map (\<lambda>fx. fdiv (spatial_information (occupancy_probability occ) fx)
                               (mean_rate (occupancy_probability occ) fx)) (tc_fx tc))"
  have r: "compute_mutual_information_1d tc f ep minmax False = Inr per_event"
    using e h by (simp add: compute_mutual_information_1d_def Let_def per_event_def)
  have len: "length per_second = length (tc_fx tc)" by (simp add: s length_tc_columns)
  have keys: "map fst per_event = map fst per_second"
    by (simp add: s per_event_def length_tc_columns)
  have cell: "snd (per_event ! k) = fdiv (snd (per_second ! k)) (Fin r) \<and>
              (\<forall>v. snd (per_second ! k) = Fin v \<longrightarrow> snd (per_event ! k) = Fin (v / r))"
    if "k < length (tc_fx tc)" "mean_rate (occupancy_probability occ) (tc_fx tc ! k) = Fin r \<and> 0 < r"
    for k r
    using that by (auto simp: s per_event_def length_tc_columns)
  from e h r len keys cell show ?thesis by blast
qed


lemma ex_mi_edges: "edges_1d ex_feature (int (tc_rows ex_tuning) + 1) None = Inr [Fin 0, Fin 1, Fin 2, Fin 3]"
  by code_simp

lemma ex_mi_occupancy:
  "histogram (fvalues (restrict ex_feature ex_ep)) [Fin 0, Fin 1, Fin 2, Fin 3] = Inr [2, 0, 1]"
  by code_simp

lemma ex_mi_probability: "occupancy_probability [2, 0, 1] = [Fin (2/3), Fin 0, Fin (1/3)]"
  by code_simp

lemma ex_mi_rate: "mean_rate [Fin (2/3), Fin 0, Fin (1/3)] [Fin 1, Fin 0, Fin 4] = Fin 2"
  by code_simp

lemma log2_half: "log 2 (1 / 2) = -1"
  by (simp add: log_divide)

lemma ex_mi_information:
  "spatial_information [Fin (2/3), Fin 0, Fin (1/3)] [Fin 1, Fin 0, Fin 4] = Fin (2/3)"
  by (simp add: spatial_information_def ex_mi_rate logfx_def log2_half)

lemma ex_mi_returns:
  "compute_mutual_information_1d ex_tuning ex_feature ex_ep None True
     = Inr [(Inr 0, NaN), (Inr 1, Fin (2/3))]"
  using ex_mi_edges ex_mi_occupancy
  by (simp add: compute_mutual_information_1d_def ex_mi_probability ex_mi_information
      ex_tuning_def spatial_information_def mean_rate_def logfx_def log2_half)


theorem bits_per_event_witness:
  "\<exists>per_second per_event.
     compute_mutual_information_1d ex_tuning ex_feature ex_ep None True = Inr per_second \<and>
     compute_mutual_information_1d ex_tuning ex_feature ex_ep None False = Inr per_event \<and>
     mean_rate (occupancy_probability [2, 0, 1]) (tc_fx ex_tuning ! 1) = Fin 2 \<and>
     per_second ! 1 = (Inr 1, Fin (2/3)) \<and> per_event ! 1 = (Inr 1, Fin (1/3))"
proof -
  from bits_per_event[OF ex_mi_returns] obtain bins occ per_event where
    e: "edges_1d ex_feature (int (tc_rows ex_tuning) + 1) None = Inr bins"
    and h: "histogram (fvalues (restrict ex_feature ex_ep)) bins = Inr occ"
    and r: "compute_mutual_information_1d ex_tuning ex_feature ex_ep None False = Inr per_event"
    and keys: "map fst per_event = map fst [(Inr 0 :: nat + nat, NaN), (Inr 1, Fin (2/3))]"
    and c: "\<forall>k < length (tc_fx ex_tuning). \<forall>r.
              mean_rate (occupancy_probability occ) (tc_fx ex_tuning ! k) = Fin r \<and> 0 < r \<longrightarrow>
                snd (per_event ! k) = fdiv (snd ([(Inr 0 :: nat + nat, NaN), (Inr 1, Fin (2/3))] ! k)) (Fin r)"
    by blast
  from e have bins: "bins = [Fin 0, Fin 1, Fin 2, Fin 3]" unfolding ex_mi_edges by simp
  from h have occ: "occ = [2, 0, 1]" unfolding bins ex_mi_occupancy by simp
  have m: "mean_rate (occupancy_probability [2, 0, 1]) (tc_fx ex_tuning ! 1) = Fin 2"
    by (simp add: ex_mi_probability ex_mi_rate ex_tuning_def)
  have "1 < length (tc_fx ex_tuning)" by (simp add: ex_tuning_def)
  moreover have "mean_rate (occupancy_probability occ) (tc_fx ex_tuning ! 1) = Fin 2 \<and> (0::real) < 2"
    using m by (simp add: occ)
  ultimately have "snd (per_event ! 1)
      = fdiv (snd ([(Inr 0 :: nat + nat, NaN), (Inr 1, Fin (2/3))] ! 1)) (Fin 2)"
    using c by blast
  then have "snd (per_event ! 1) = Fin (1/3)" by simp
  moreover from keys have "fst (per_event ! 1) = Inr 1"
    by (cases per_event; cases "tl per_event") auto
  ultimately have "per_event ! 1 = (Inr 1, Fin (1/3))" by (cases "per_event ! 1") simp
  with r m ex_mi_returns show ?thesis by simp
qed

section \<open>The logarithm of the ratio\<close>

lemma fsum_Fin: "fsum (map Fin xs) = Fin (sum_list xs)"
  by (induction xs) auto

lemma occupancy_probability_Fin:
  "sum_list occ \<noteq> 0 \<Longrightarrow> occupancy_probability occ = map Fin (skaggs_probability occ)"
  by (simp add: occupancy_probability_def skaggs_probability_def)

lemma mean_rate_Fin: "mean_rate (map Fin ps) (map Fin xs) = Fin (skaggs_rate ps xs)"
proof -
  have "map (\<lambda>(x, p). fmul x p) (zip (map Fin xs) (map Fin ps))
          = map Fin (map (\<lambda>(x, p). x * p) (zip xs ps))"
    by (simp add: zip_map_map split_beta)
  then show ?thesis by (simp only: mean_rate_def skaggs_rate_def fsum_Fin)
qed

lemma logfx_not_inf: "\<not> isinf (logfx fr x)"
  by (simp add: logfx_def Let_def)

lemma logfx_inf: "isinf (flog2 (fdiv x fr)) \<Longrightarrow> logfx fr x = Fin 0"
  by (simp add: logfx_def Let_def)

lemma logfx_other: "\<not> isinf (flog2 (fdiv x fr)) \<Longrightarrow> logfx fr x = flog2 (fdiv x fr)"
  by (simp add: logfx_def Let_def)

lemma logfx_Fin:
  "0 < r \<Longrightarrow> 0 \<le> x \<Longrightarrow> logfx (Fin r) (Fin x) = Fin (if x = 0 then 0 else log 2 (x / r))"
  by (auto simp: logfx_def Let_def)

lemma spatial_information_Fin:
  assumes "0 < skaggs_rate ps xs" and "list_all (\<lambda>x. 0 \<le> x) xs"
  shows "spatial_information (map Fin ps) (map Fin xs) = Fin (skaggs_information ps xs)"
proof -
  define r where "r = skaggs_rate ps xs"
  have "fmul (fmul (Fin p) (Fin x)) (logfx (Fin r) (Fin x))
          = Fin (p * x * (if x = 0 then 0 else log 2 (x / r)))"
    if "(p, x) \<in> set (zip ps xs)" for p x
  proof -
    from that have "x \<in> set xs" by (rule set_zip_rightD)
    with assms(2) have "0 \<le> x" by (simp add: list_all_iff)
    with assms(1) show ?thesis by (simp add: logfx_Fin r_def)
  qed
  then have "map (\<lambda>(p, x). fmul (fmul p x) (logfx (Fin r) x)) (zip (map Fin ps) (map Fin xs))
          = map Fin (map (\<lambda>(p, x). p * x * (if x = 0 then 0 else log 2 (x / r))) (zip ps xs))"
    by (auto simp: zip_map_map)
  then show ?thesis
    by (simp only: spatial_information_def mean_rate_Fin skaggs_information_def fsum_Fin r_def)
qed


text \<open>
  C3, as amended: in \<^verbatim>\<open>compute_mutual_information_1d\<close> every infinite value of the
  logarithm of the ratio (minus infinity for a ratio of zero, plus infinity for a
  positive value over a mean rate of zero) is replaced with 0 before the weighted sum,
  and no other value is changed. So in a column of finite non-negative values whose
  mean rate is strictly positive a bin with the value zero contributes exactly 0, and
  the statistic returned for the column is the finite number of the docstring's formula
  (divided by the mean rate for bits per event).
\<close>

theorem information_suppression:
  assumes "compute_mutual_information_1d tc f ep minmax bitssecond = Inr res"
    and "k < length (tc_fx tc)"
    and "tc_fx tc ! k = map Fin xs"
    and "list_all (\<lambda>x. 0 \<le> x) xs"
  shows "\<exists>bins occ.
           edges_1d f (int (tc_rows tc) + 1) minmax = Inr bins \<and>
           histogram (fvalues (restrict f ep)) bins = Inr occ \<and>
           (\<forall>fr x. \<not> isinf (logfx fr x) \<and>
                   (isinf (flog2 (fdiv x fr)) \<longrightarrow> logfx fr x = Fin 0) \<and>
                   (\<not> isinf (flog2 (fdiv x fr)) \<longrightarrow> logfx fr x = flog2 (fdiv x fr))) \<and>
           (0 < sum_list occ \<and> 0 < skaggs_rate (skaggs_probability occ) xs \<longrightarrow>
              mean_rate (occupancy_probability occ) (tc_fx tc ! k)
                = Fin (skaggs_rate (skaggs_probability occ) xs) \<and>
              snd (res ! k) =
                Fin (if bitssecond then skaggs_information (skaggs_probability occ) xs
                     else skaggs_information (skaggs_probability occ) xs
                          / skaggs_rate (skaggs_probability occ) xs))"
proof -
  from compute_mi_Inr[OF assms(1)] obtain bins occ where
    e: "edges_1d f (int (tc_rows tc) + 1) minmax = Inr bins"
    and h: "histogram (fvalues (restrict f ep)) bins = Inr occ"
    by blast
  note nth = compute_mi_nth[OF assms(1) h e assms(2)]
  have l: "\<not> isinf (logfx fr x) \<and>
           (isinf (flog2 (fdiv x fr)) \<longrightarrow> logfx fr x = Fin 0) \<and>
           (\<not> isinf (flog2 (fdiv x fr)) \<longrightarrow> logfx fr x = flog2 (fdiv x fr))" for fr x
    by (simp add: logfx_not_inf logfx_inf logfx_other)
  have v: "mean_rate (occupancy_probability occ) (tc_fx tc ! k)
                = Fin (skaggs_rate (skaggs_probability occ) xs) \<and>
           snd (res ! k) =
                Fin (if bitssecond then skaggs_information (skaggs_probability occ) xs
                     else skaggs_information (skaggs_probability occ) xs
                          / skaggs_rate (skaggs_probability occ) xs)"
    if "0 < sum_list occ" "0 < skaggs_rate (skaggs_probability occ) xs"
  proof -
    from that(1) have p: "occupancy_probability occ = map Fin (skaggs_probability occ)"
      by (simp add: occupancy_probability_Fin)
    have m: "mean_rate (occupancy_probability occ) (tc_fx tc ! k)
               = Fin (skaggs_rate (skaggs_probability occ) xs)"
      by (simp only: p assms(3) mean_rate_Fin)
    have i: "spatial_information (occupancy_probability occ) (tc_fx tc ! k)
               = Fin (skaggs_information (skaggs_probability occ) xs)"
      by (simp only: p assms(3) spatial_information_Fin[OF that(2) assms(4)])
    from nth m i that(2) show ?thesis by simp
  qed
  from e h l v show ?thesis by blast
qed

text \<open>
  The column that is zero in every bin has the mean rate 0; the ratio is 0/0, its
  logarithm is not a number and is not replaced: the statistic returned is not a number,
  in bits per second and in bits per event.
\<close>

theorem information_suppression_counterexample:
  "tc_fx ex_tuning ! 0 = [Fin 0, Fin 0, Fin 0] \<and>
   compute_mutual_information_1d ex_tuning ex_feature ex_ep None True
     = Inr [(Inr 0, NaN), (Inr 1, Fin (2/3))] \<and>
   compute_mutual_information_1d ex_tuning ex_feature ex_ep None False
     = Inr [(Inr 0, NaN), (Inr 1, Fin (1/3))] \<and>
   flog2 (fdiv (Fin 0) (Fin 0)) = NaN \<and> logfx (Fin 0) (Fin 0) = NaN"
proof -
  have "compute_mutual_information_1d ex_tuning ex_feature ex_ep None False
     = Inr [(Inr 0, NaN), (Inr 1, Fin (1/3))]"
    using ex_mi_edges ex_mi_occupancy
    by (simp add: compute_mutual_information_1d_def ex_mi_probability ex_mi_information
        ex_tuning_def spatial_information_def mean_rate_def logfx_def log2_half)
  with ex_mi_returns show ?thesis by (simp add: ex_tuning_def logfx_def)
qed

lemma ex_skaggs_rate: "skaggs_rate (skaggs_probability [2, 0, 1]) [1, 0, 4] = 2"
  by (simp add: skaggs_rate_def skaggs_probability_def)

lemma ex_skaggs_information: "skaggs_information (skaggs_probability [2, 0, 1]) [1, 0, 4] = 2/3"
  unfolding skaggs_information_def ex_skaggs_rate
  by (simp add: skaggs_probability_def log2_half)

theorem information_suppression_witness:
  "compute_mutual_information_1d ex_tuning ex_feature ex_ep None True
     = Inr [(Inr 0, NaN), (Inr 1, Fin (2/3))] \<and>
   tc_fx ex_tuning ! 1 = map Fin [1, 0, 4] \<and>
   skaggs_rate (skaggs_probability [2, 0, 1]) [1, 0, 4] = 2 \<and>
   snd ([(Inr 0 :: nat + nat, NaN), (Inr 1, Fin (2/3))] ! 1)
     = Fin (skaggs_information (skaggs_probability [2, 0, 1]) [1, 0, 4])"
proof -
  have k: "1 < length (tc_fx ex_tuning)" by (simp add: ex_tuning_def)
  have c: "tc_fx ex_tuning ! 1 = map Fin [1, 0, 4]" by (simp add: ex_tuning_def)
  have n: "list_all (\<lambda>x. 0 \<le> x) [1, 0, 4 :: real]" by simp
  from information_suppression[OF ex_mi_returns k c n] obtain bins occ where
    e: "edges_1d ex_feature (int (tc_rows ex_tuning) + 1) None = Inr bins"
    and h: "histogram (fvalues (restrict ex_feature ex_ep)) bins = Inr occ"
    and v: "0 < sum_list occ \<and> 0 < skaggs_rate (skaggs_probability occ) [1, 0, 4] \<longrightarrow>
              snd ([(Inr 0 :: nat + nat, NaN), (Inr 1, Fin (2/3))] ! 1) =
                Fin (if True then skaggs_information (skaggs_probability occ) [1, 0, 4]
                     else skaggs_information (skaggs_probability occ) [1, 0, 4]
                          / skaggs_rate (skaggs_probability occ) [1, 0, 4])"
    by blast
  from e have bins: "bins = [Fin 0, Fin 1, Fin 2, Fin 3]" unfolding ex_mi_edges by simp
  from h have occ: "occ = [2, 0, 1]" unfolding bins ex_mi_occupancy by simp
  from v have "snd ([(Inr 0 :: nat + nat, NaN), (Inr 1, Fin (2/3))] ! 1)
     = Fin (skaggs_information (skaggs_probability [2, 0, 1]) [1, 0, 4])"
    unfolding occ by (simp add: ex_skaggs_rate)
  with ex_mi_returns c ex_skaggs_rate show ?thesis by blast
qed

section \<open>The occupancy of the two functions\<close>

lemma sum_list_diff: "xs \<noteq> [] \<Longrightarrow> sum_list (diff xs) = last xs - hd xs"
  by (induction xs rule: diff.induct) auto

lemma histogram_total:
  assumes "histogram a bins = Inr c" and "2 \<le> length bins"
  shows "sum_list c = searchsorted_right a (last bins) - searchsorted_left a (hd bins)"
proof -
  from assms(1) have c: "c = diff (search_sorted_inclusive a bins)"
    by (auto simp: histogram_def split: if_splits)
  from assms(2) have ne: "search_sorted_inclusive a bins \<noteq> []"
    using length_search_sorted_inclusive[of a bins] by auto
  from assms(2) have l: "length bins - 1 < length bins" and z: "0 < length bins" by auto
  from z have bne: "bins \<noteq> []" by auto
  have "last (search_sorted_inclusive a bins)
          = search_sorted_inclusive a bins ! (length bins - 1)"
    using ne by (simp add: last_conv_nth length_search_sorted_inclusive)
  also have "\<dots> = searchsorted_right a (bins ! (length bins - 1))"
  proof -
    from assms(2) have "\<not> Suc (length bins - 1) < length bins" by simp
    with search_sorted_inclusive_nth[OF l, of a] show ?thesis by (simp only: if_False)
  qed
  also have "bins ! (length bins - 1) = last bins"
    by (simp add: last_conv_nth[OF bne])
  finally have la: "last (search_sorted_inclusive a bins) = searchsorted_right a (last bins)" .
  have "hd (search_sorted_inclusive a bins) = search_sorted_inclusive a bins ! 0"
    using ne by (simp add: hd_conv_nth)
  also have "\<dots> = searchsorted_left a (bins ! 0)"
  proof -
    from assms(2) have "Suc 0 < length bins" by simp
    with search_sorted_inclusive_nth[OF z, of a] show ?thesis by (simp only: if_True)
  qed
  also have "bins ! 0 = hd bins"
    by (simp add: hd_conv_nth[OF bne])
  finally have hd: "hd (search_sorted_inclusive a bins) = searchsorted_left a (hd bins)" .
  show ?thesis by (simp add: c sum_list_diff[OF ne] la hd)
qed

lemma histogram_total_range:
  assumes "histogram a bins = Inr c" and "2 \<le> length bins"
    and "hd bins = Fin lo" and "last bins = Fin hi"
    and "\<forall>x \<in> set a. lo \<le> x \<and> x \<le> hi"
  shows "sum_list c = int (length a)"
proof -
  have "filter (\<lambda>x. sorts_upto x (Fin hi)) a = a"
    using assms(5) by (simp add: filter_id_conv)
  moreover have "filter (\<lambda>x. sorts_before x (Fin lo)) a = []"
    using assms(5) by (auto simp: filter_empty_conv)
  ultimately show ?thesis
    by (simp add: histogram_total[OF assms(1,2)] assms(3,4) searchsorted_left_def
        searchsorted_right_def)
qed

lemma restrict_subset: "set (fvalues (restrict f ep)) \<subseteq> set (fvalues f)"
  by (auto simp: fvalues_def restrict_def)

lemma length_fvalues: "length (fvalues f) = length (samples f)"
  by (simp add: fvalues_def)

lemma restrict_shorter:
  assumes "list_ex (\<lambda>(t, v). \<not> in_ep ep t) (samples f)"
  shows "length (samples (restrict f ep)) < length (samples f)"
proof -
  from assms obtain p where "p \<in> set (samples f)" "\<not> (\<lambda>(t, v). in_ep ep t) p"
    by (auto simp: list_ex_iff)
  then show ?thesis
    by (simp add: restrict_def length_filter_less)
qed

lemma edges_1d_None_ends:
  assumes "2 \<le> nb_bins" and "edges_1d f nb_bins None = Inr bins" and "fvalues f \<noteq> []"
  shows "hd bins = Fin (Min (set (fvalues f))) \<and> last bins = Fin (Max (set (fvalues f))) \<and>
         length bins = nat nb_bins"
proof -
  from assms(2) have "channel_edges f nb_bins None 0 = Inr bins" by (simp add: channel_edges_None)
  from channel_edges_ends_None[OF assms(1) this] np_min_max[OF assms(3)] show ?thesis by simp
qed


lemma occupancy_inferred_bounds:
  assumes "2 \<le> nb_bins" and "list_ex (\<lambda>(t, v). \<not> in_ep ep t) (samples f)"
  shows "\<exists>bins occ_tc occ_mi.
           edges_1d f nb_bins None = Inr bins \<and>
           histogram (fvalues f) bins = Inr occ_tc \<and>
           histogram (fvalues (restrict f ep)) bins = Inr occ_mi \<and>
           (\<forall>vf grp df. compute_1d_on_group vf grp f ep nb_bins None = Inr df \<longrightarrow>
              tuning_loop bins occ_tc (rate f) (group_value_from vf grp f ep)
                (DataFrame (bin_centers bins) (map fst grp)) = Inr df) \<and>
           (\<forall>tc b res. int (tc_rows tc) + 1 = nb_bins \<and>
                       compute_mutual_information_1d tc f ep None b = Inr res \<longrightarrow>
              res = zip (tc_columns tc)
                      (map (\<lambda>fx. if b then spatial_information (occupancy_probability occ_mi) fx
                                 else fdiv (spatial_information (occupancy_probability occ_mi) fx)
                                           (mean_rate (occupancy_probability occ_mi) fx))
                           (tc_fx tc))) \<and>
           sum_list occ_tc = int (length (samples f)) \<and>
           sum_list occ_mi = int (length (samples (restrict f ep))) \<and>
           sum_list occ_mi < sum_list occ_tc \<and> occ_tc \<noteq> occ_mi"
proof -
  from assms(2) have ne: "fvalues f \<noteq> []" by (auto simp: fvalues_def list_ex_iff)
  from assms(1) obtain bins where e: "edges_1d f nb_bins None = Inr bins"
    using linspace_Inr_iff[of "np_min (fvalues f)" "np_max (fvalues f)" nb_bins]
    by (auto simp: edges_1d_def)
  have nd: "\<not> decreases bins" by (rule edges_1d_not_decreasing[OF e]) simp
  obtain occ_tc where h1: "histogram (fvalues f) bins = Inr occ_tc"
    using nd by (auto simp: histogram_def)
  obtain occ_mi where h2: "histogram (fvalues (restrict f ep)) bins = Inr occ_mi"
    using nd by (auto simp: histogram_def)
  from edges_1d_None_ends[OF assms(1) e ne]
  have hd: "hd bins = Fin (Min (set (fvalues f)))" and la: "last bins = Fin (Max (set (fvalues f)))"
    and len: "2 \<le> length bins"
    using assms(1) by auto
  have r1: "\<forall>x \<in> set (fvalues f). Min (set (fvalues f)) \<le> x \<and> x \<le> Max (set (fvalues f))"
    by simp
  with restrict_subset[of f ep]
  have r2: "\<forall>x \<in> set (fvalues (restrict f ep)).
              Min (set (fvalues f)) \<le> x \<and> x \<le> Max (set (fvalues f))"
    by blast
  have s1: "sum_list occ_tc = int (length (samples f))"
    using histogram_total_range[OF h1 len hd la r1] by (simp add: length_fvalues)
  have s2: "sum_list occ_mi = int (length (samples (restrict f ep)))"
    using histogram_total_range[OF h2 len hd la r2] by (simp add: length_fvalues)
  have lt: "sum_list occ_mi < sum_list occ_tc"
    using restrict_shorter[OF assms(2)] by (simp add: s1 s2)
  then have neq: "occ_tc \<noteq> occ_mi" by auto
  have tc: "tuning_loop bins occ_tc (rate f) (group_value_from vf grp f ep)
                (DataFrame (bin_centers bins) (map fst grp)) = Inr df"
    if "compute_1d_on_group vf grp f ep nb_bins None = Inr df" for vf grp df
    using compute_1d_Inr[OF that] e h1 by auto
  have mi: "res = zip (tc_columns tc)
                      (map (\<lambda>fx. if b then spatial_information (occupancy_probability occ_mi) fx
                                 else fdiv (spatial_information (occupancy_probability occ_mi) fx)
                                           (mean_rate (occupancy_probability occ_mi) fx))
                           (tc_fx tc))"
    if "int (tc_rows tc) + 1 = nb_bins \<and> compute_mutual_information_1d tc f ep None b = Inr res"
    for tc b res
  proof -
    from that have "compute_mutual_information_1d tc f ep None b = Inr res"
      and "edges_1d f (int (tc_rows tc) + 1) None = Inr bins"
      using e by simp_all
    with compute_mi_Inr[of tc f ep None b res] h2 show ?thesis by auto
  qed
  from e h1 h2 tc mi s1 s2 lt neq show ?thesis by blast
qed

text \<open>
  For a group that is a \<^verbatim>\<open>TsGroup\<close>: for every input, \<^verbatim>\<open>compute_1d_on_group\<close> takes its occupancy
  histogram from all the samples of the feature, without restricting the feature to the
  interval set, and \<^verbatim>\<open>compute_mutual_information_1d\<close> takes it from the samples of the
  feature restricted to the interval set. With the bounds inferred from the feature and
  at least two edges, the counts of the first sum to the number of all samples and the
  counts of the second to the number of samples inside the interval set; hence, for any
  feature with a sample outside the interval set, the two functions then normalise by
  different occupancy counts.
\<close>

lemma occupancy_restriction_on_group:
  "(\<forall>df. compute_1d_on_group vf grp f ep nb_bins minmax = Inr df \<longrightarrow>
      (\<exists>bins occ.
         edges_1d f nb_bins minmax = Inr bins \<and>
         histogram (fvalues f) bins = Inr occ \<and>
         tuning_loop bins occ (rate f) (group_value_from vf grp f ep)
           (DataFrame (bin_centers bins) (map fst grp)) = Inr df)) \<and>
   (\<forall>res. compute_mutual_information_1d tc f ep minmax b = Inr res \<longrightarrow>
      (\<exists>bins occ.
         edges_1d f (int (tc_rows tc) + 1) minmax = Inr bins \<and>
         histogram (fvalues (restrict f ep)) bins = Inr occ \<and>
         res = zip (tc_columns tc)
                 (map (\<lambda>fx. if b then spatial_information (occupancy_probability occ) fx
                            else fdiv (spatial_information (occupancy_probability occ) fx)
                                      (mean_rate (occupancy_probability occ) fx))
                      (tc_fx tc)))) \<and>
   (2 \<le> nb_bins \<and> list_ex (\<lambda>(t, v). \<not> in_ep ep t) (samples f) \<longrightarrow>
      (\<exists>bins occ_tc occ_mi.
         edges_1d f nb_bins None = Inr bins \<and>
         histogram (fvalues f) bins = Inr occ_tc \<and>
         histogram (fvalues (restrict f ep)) bins = Inr occ_mi \<and>
         sum_list occ_tc = int (length (samples f)) \<and>
         sum_list occ_mi = int (length (samples (restrict f ep))) \<and>
         sum_list occ_mi < sum_list occ_tc \<and> occ_tc \<noteq> occ_mi))"
proof -
  have a: "\<exists>bins occ.
         edges_1d f nb_bins minmax = Inr bins \<and>
         histogram (fvalues f) bins = Inr occ \<and>
         tuning_loop bins occ (rate f) (group_value_from vf grp f ep)
           (DataFrame (bin_centers bins) (map fst grp)) = Inr df"
    if "compute_1d_on_group vf grp f ep nb_bins minmax = Inr df" for df
    by (rule compute_1d_Inr[OF that])
  have b: "\<exists>bins occ.
         edges_1d f (int (tc_rows tc) + 1) minmax = Inr bins \<and>
         histogram (fvalues (restrict f ep)) bins = Inr occ \<and>
         res = zip (tc_columns tc)
                 (map (\<lambda>fx. if b then spatial_information (occupancy_probability occ) fx
                            else fdiv (spatial_information (occupancy_probability occ) fx)
                                      (mean_rate (occupancy_probability occ) fx))
                      (tc_fx tc))"
    if "compute_mutual_information_1d tc f ep minmax b = Inr res" for res
    using compute_mi_Inr[OF that] by blast
  have c: "\<exists>bins occ_tc occ_mi.
         edges_1d f nb_bins None = Inr bins \<and>
         histogram (fvalues f) bins = Inr occ_tc \<and>
         histogram (fvalues (restrict f ep)) bins = Inr occ_mi \<and>
         sum_list occ_tc = int (length (samples f)) \<and>
         sum_list occ_mi = int (length (samples (restrict f ep))) \<and>
         sum_list occ_mi < sum_list occ_tc \<and> occ_tc \<noteq> occ_mi"
    if "2 \<le> nb_bins" "list_ex (\<lambda>(t, v). \<not> in_ep ep t) (samples f)"
    using occupancy_inferred_bounds[OF that] by blast
  from a b c show ?thesis by blast
qed

text \<open>
  With the bounds \<open>(0, 1)\<close> of the caller the sample outside the interval set has its
  value outside the bins: the two histograms are the same.
\<close>

theorem occupancy_restriction_counterexample:
  "list_ex (\<lambda>(t, v). \<not> in_ep ex_ep t) (samples ex_feature_out) \<and>
   edges_1d ex_feature_out 2 (Some (0, 1)) = Inr [Fin 0, Fin 1] \<and>
   histogram (fvalues ex_feature_out) [Fin 0, Fin 1] = Inr [1] \<and>
   histogram (fvalues (restrict ex_feature_out ex_ep)) [Fin 0, Fin 1] = Inr [1] \<and>
   occupancy_probability [1] = [Fin 1]"
  by code_simp

lemma ex_feature_outside: "list_ex (\<lambda>(t, v). \<not> in_ep ex_ep t) (samples ex_feature_out)"
  by code_simp

lemma occupancy_restriction_on_group_example:
  "edges_1d ex_feature_out 2 None = Inr [Fin (1/2), Fin 7] \<and>
   histogram (fvalues ex_feature_out) [Fin (1/2), Fin 7] = Inr [2] \<and>
   histogram (fvalues (restrict ex_feature_out ex_ep)) [Fin (1/2), Fin 7] = Inr [1] \<and>
   [2 :: int] \<noteq> [1]"
proof -
  have n: "(2::int) \<le> 2" by simp
  from occupancy_restriction_on_group[where vf = value_from_closest and grp = ex_group
      and f = ex_feature_out and ep = ex_ep and nb_bins = 2 and minmax = None
      and tc = ex_tuning and b = True] n ex_feature_outside
  obtain bins occ_tc occ_mi where
    e: "edges_1d ex_feature_out 2 None = Inr bins"
    and h1: "histogram (fvalues ex_feature_out) bins = Inr occ_tc"
    and h2: "histogram (fvalues (restrict ex_feature_out ex_ep)) bins = Inr occ_mi"
    and s1: "sum_list occ_tc = int (length (samples ex_feature_out))"
    and s2: "sum_list occ_mi = int (length (samples (restrict ex_feature_out ex_ep)))"
    and neq: "occ_tc \<noteq> occ_mi"
    by blast
  have e': "edges_1d ex_feature_out 2 None = Inr [Fin (1/2), Fin 7]" by code_simp
  with e have bins: "bins = [Fin (1/2), Fin 7]" by simp
  have l1: "length occ_tc = 1" using histogram_length[OF h1] by (simp add: bins)
  have l2: "length occ_mi = 1" using histogram_length[OF h2] by (simp add: bins)
  have "length (samples ex_feature_out) = 2" by (simp add: ex_feature_out_def)
  with s1 l1 have o1: "occ_tc = [2]" by (cases occ_tc) auto
  have "length (samples (restrict ex_feature_out ex_ep)) = 1" by code_simp
  with s2 l2 have o2: "occ_mi = [1]" by (cases occ_mi) auto
  from e' h1 h2 neq show ?thesis by (simp add: bins o1 o2)
qed

section \<open>The one-dimensional tuning curves of a dictionary or a group\<close>

lemma compute_1d_TsGroup:
  "compute_1d_tuning_curves mk vf (TsGroup grp) f ep nb_bins minmax
     = compute_1d_on_group vf grp f ep nb_bins minmax"
  by (simp add: compute_1d_tuning_curves_def as_tsgroup_def)

lemma as_tsgroup_TsGroup: "as_tsgroup mk (TsGroup grp) ep = grp"
  by (simp add: as_tsgroup_def)

lemma ex_dict_group: "as_tsgroup nap_TsGroup (Dict ex_dict) ex_ep = [(3, [1]), (7, [1/10, 19/10])]"
  by code_simp

text \<open>
  C1, as amended: for every member of the group and every bin whose occupancy count is
  not zero, the cell of the table returned by \<^verbatim>\<open>compute_1d_tuning_curves\<close> is the
  member's histogram count of aligned values over the bin edges, divided by the
  occupancy count of that bin and multiplied by the rate of the feature; the occupancy is
  the histogram of all the samples of the feature over the same edges.
\<close>

theorem normalised_rate_1d:
  assumes "compute_1d_tuning_curves mk vf g f ep nb_bins minmax = Inr df"
    and "distinct (map fst (as_tsgroup mk g ep))" and "(k, s) \<in> set (as_tsgroup mk g ep)"
  shows "\<exists>bins occupancy count.
           edges_1d f nb_bins minmax = Inr bins \<and>
           histogram (fvalues f) bins = Inr occupancy \<and>
           histogram (vf s f ep) bins = Inr count \<and>
           length occupancy = length bins - 1 \<and> length count = length bins - 1 \<and>
           length (cells df k) = length bins - 1 \<and>
           (\<forall>j < length bins - 1. occupancy ! j \<noteq> 0 \<longrightarrow>
              cells df k ! j =
                fmul (fdiv (Fin (real_of_int (count ! j))) (Fin (real_of_int (occupancy ! j))))
                     (Fin (rate f)))"
  using assms unfolding compute_1d_tuning_curves_def by (rule normalised_rate_1d_on_group)

text \<open>
  C2: when every aligned value is the value of a sample of the feature (what the aligner
  gives), a call of \<^verbatim>\<open>compute_1d_tuning_curves\<close> with a non-negative \<open>nb_bins\<close> and
  bounds in order returns, whatever the occupancy counts are, and in every bin whose
  occupancy count is zero the cell of every member is exactly 0.
\<close>

theorem zero_occupancy_1d:
  assumes "list_all (\<lambda>(k, s). set (vf s f ep) \<subseteq> set (fvalues f)) (as_tsgroup mk g ep)"
    and "distinct (map fst (as_tsgroup mk g ep))"
    and "0 \<le> nb_bins"
    and "case minmax of None \<Rightarrow> True | Some mm \<Rightarrow> fst mm \<le> snd mm"
  shows "\<exists>df bins occupancy.
           compute_1d_tuning_curves mk vf g f ep nb_bins minmax = Inr df \<and>
           edges_1d f nb_bins minmax = Inr bins \<and>
           histogram (fvalues f) bins = Inr occupancy \<and>
           length occupancy = length bins - 1 \<and>
           (\<forall>j < length occupancy. occupancy ! j = 0 \<longrightarrow>
              list_all (\<lambda>(k, s). cells df k ! j = Fin 0) (as_tsgroup mk g ep))"
  using assms unfolding compute_1d_tuning_curves_def by (rule zero_occupancy_1d_on_group)

text \<open>
  For a group that is a \<^verbatim>\<open>TsGroup\<close>: \<^verbatim>\<open>compute_2d_on_group\<close> fails with the module's own error (the
  \<open>RuntimeError\<close> that the specification calls InvalidDimension) exactly when the feature
  has not two columns. That is the only condition on the shape of the input under which
  the tuning-curve computations raise: with at least one edge per axis, bounds in order,
  a well-formed frame and an aligner that gives a member as many values on one column as
  on the other, the two-dimensional computation raises exactly when the feature has not
  two columns, and the one-dimensional computation never raises.
\<close>

lemma invalid_dimension_2d_of_group:
  "(compute_2d_on_group vf grp f ep nb_bins minmax = Inl RuntimeError
      \<longleftrightarrow> length (channels f) \<noteq> 2) \<and>
   (1 \<le> nb_bins \<and> wf_frame f \<and>
    (case minmax of None \<Rightarrow> True
     | Some (minx, maxx, miny, maxy) \<Rightarrow> minx \<le> maxx \<and> miny \<le> maxy) \<and>
    list_all (\<lambda>(n, s). length (vf s (channel_series f (snd (channels f ! 0))) ep)
                      = length (vf s (channel_series f (snd (channels f ! 1))) ep)) grp
    \<longrightarrow> ((\<exists>e. compute_2d_on_group vf grp f ep nb_bins minmax = Inl e)
           \<longleftrightarrow> length (channels f) \<noteq> 2)) \<and>
   (0 \<le> nb_bins \<and> (case minmax' of None \<Rightarrow> True | Some m \<Rightarrow> fst m \<le> snd m)
    \<longrightarrow> (\<exists>df. compute_1d_tuning_curves mk vf' g' f' ep nb_bins minmax' = Inr df))"
  unfolding compute_1d_tuning_curves_def by (rule invalid_dimension_2d_on_group)

text \<open>
  C10, as amended: for every input, \<^verbatim>\<open>compute_1d_tuning_curves\<close> takes its occupancy
  histogram from all the samples of the feature, without restricting the feature to the
  interval set, and \<^verbatim>\<open>compute_mutual_information_1d\<close> takes it from the samples of the
  feature restricted to the interval set. With the bounds inferred from the feature and
  at least two edges, the counts of the first sum to the number of all samples and the
  counts of the second to the number of samples inside the interval set; hence, for any
  feature with a sample outside the interval set, the two functions then normalise by
  different occupancy counts.
\<close>

theorem occupancy_restriction:
  "(\<forall>df. compute_1d_tuning_curves mk vf g f ep nb_bins minmax = Inr df \<longrightarrow>
      (\<exists>bins occ.
         edges_1d f nb_bins minmax = Inr bins \<and>
         histogram (fvalues f) bins = Inr occ \<and>
         tuning_loop bins occ (rate f) (group_value_from vf (as_tsgroup mk g ep) f ep)
           (DataFrame (bin_centers bins) (map fst (as_tsgroup mk g ep))) = Inr df)) \<and>
   (\<forall>res. compute_mutual_information_1d tc f ep minmax b = Inr res \<longrightarrow>
      (\<exists>bins occ.
         edges_1d f (int (tc_rows tc) + 1) minmax = Inr bins \<and>
         histogram (fvalues (restrict f ep)) bins = Inr occ \<and>
         res = zip (tc_columns tc)
                 (map (\<lambda>fx. if b then spatial_information (occupancy_probability occ) fx
                            else fdiv (spatial_information (occupancy_probability occ) fx)
                                      (mean_rate (occupancy_probability occ) fx))
                      (tc_fx tc)))) \<and>
   (2 \<le> nb_bins \<and> list_ex (\<lambda>(t, v). \<not> in_ep ep t) (samples f) \<longrightarrow>
      (\<exists>bins occ_tc occ_mi.
         edges_1d f nb_bins None = Inr bins \<and>
         histogram (fvalues f) bins = Inr occ_tc \<and>
         histogram (fvalues (restrict f ep)) bins = Inr occ_mi \<and>
         sum_list occ_tc = int (length (samples f)) \<and>
         sum_list occ_mi = int (length (samples (restrict f ep))) \<and>
         sum_list occ_mi < sum_list occ_tc \<and> occ_tc \<noteq> occ_mi))"
  unfolding compute_1d_tuning_curves_def by (rule occupancy_restriction_on_group)

text \<open>
  C4, as amended: a call of \<^verbatim>\<open>compute_1d_tuning_curves\<close> with \<open>nb_bins \<ge> 2\<close> and a
  non-empty group that returns a table returns one with exactly \<open>nb_bins - 1\<close> rows,
  indexed by the bin centres (for each bin the code's \<open>edge + (next edge - edge) / 2\<close>,
  the midpoint of two finite consecutive edges), with one column of \<open>nb_bins - 1\<close> cells
  per identifier of the group. The columns stand in the iteration order of the group when
  the argument is a \<^verbatim>\<open>TsGroup\<close>, and in the iteration order of the \<^verbatim>\<open>TsGroup\<close> built from
  it when the argument is a plain dictionary.
\<close>

theorem table_shape_1d:
  assumes "2 \<le> nb_bins" and "(as_tsgroup mk g ep) \<noteq> []"
    and "compute_1d_tuning_curves mk vf g f ep nb_bins minmax = Inr df"
  shows "(\<exists>bins. edges_1d f nb_bins minmax = Inr bins \<and> length bins = nat nb_bins \<and>
           length (index df) = nat (nb_bins - 1) \<and>
           (\<forall>j < nat (nb_bins - 1).
              index df ! j = fadd (bins ! j) (fdiv (fsub (bins ! Suc j) (bins ! j)) (Fin 2)) \<and>
              (\<forall>a b. bins ! j = Fin a \<and> bins ! Suc j = Fin b \<longrightarrow> index df ! j = Fin ((a + b) / 2))) \<and>
           columns df = map fst (as_tsgroup mk g ep) \<and>
           list_all (\<lambda>k. length (cells df k) = nat (nb_bins - 1)) (columns df)) \<and>
         (\<forall>grp. g = TsGroup grp \<longrightarrow> columns df = map fst grp) \<and>
         (\<forall>d. g = Dict d \<longrightarrow> columns df = map fst (mk d ep))"
proof -
  from assms(3) have r: "compute_1d_on_group vf (as_tsgroup mk g ep) f ep nb_bins minmax = Inr df"
    by (simp add: compute_1d_tuning_curves_def)
  note th = table_shape_1d_on_group[OF assms(1,2) r]
  then have "columns df = map fst (as_tsgroup mk g ep)" by blast
  then have "(\<forall>grp. g = TsGroup grp \<longrightarrow> columns df = map fst grp) \<and>
             (\<forall>d. g = Dict d \<longrightarrow> columns df = map fst (mk d ep))"
    by (auto simp: as_tsgroup_def)
  with th show ?thesis by blast
qed

text \<open>
  The container keeps the identifiers in increasing order: for the dictionary that
  iterates over 7 before 3 the columns are 3 and 7.
\<close>

theorem table_shape_1d_counterexample:
  "map fst ex_dict = [7, 3] \<and>
   (case compute_1d_tuning_curves nap_TsGroup value_from_closest (Dict ex_dict) ex_feature ex_ep 4 None of
      Inl e \<Rightarrow> None | Inr df \<Rightarrow> Some (columns df)) = Some [3, 7]"
  by code_simp


theorem normalised_rate_1d_witness:
  "\<exists>df. compute_1d_tuning_curves nap_TsGroup value_from_closest (TsGroup ex_group) ex_feature ex_ep 4 None = Inr df \<and>
        cells df 7 ! 0 = Fin 1 \<and> cells df 7 ! 2 = Fin 2"
proof -
  obtain df where r:
    "compute_1d_on_group value_from_closest ex_group ex_feature ex_ep 4 None = Inr df"
    using ex_returns
    by (cases "compute_1d_on_group value_from_closest ex_group ex_feature ex_ep 4 None") auto
  have m: "(7, [1/10, 19/10, 20]) \<in> set ex_group" by (simp add: ex_group_def)
  from normalised_rate_1d[where mk = nap_TsGroup and g = "TsGroup ex_group", unfolded compute_1d_TsGroup as_tsgroup_TsGroup,
      OF r ex_distinct m] obtain bins occupancy count where
    e: "edges_1d ex_feature 4 None = Inr bins"
    and h: "histogram (fvalues ex_feature) bins = Inr occupancy"
    and c: "histogram (value_from_closest [1/10, 19/10, 20] ex_feature ex_ep) bins = Inr count"
    and cell: "\<forall>j < length bins - 1. occupancy ! j \<noteq> 0 \<longrightarrow>
              cells df 7 ! j =
                fmul (fdiv (Fin (real_of_int (count ! j))) (Fin (real_of_int (occupancy ! j))))
                     (Fin (rate ex_feature))"
    by blast
  from e have bins: "bins = [Fin 0, Fin 1, Fin 2, Fin 3]" by (simp add: ex_edges)
  from h have occ: "occupancy = [2, 0, 1]" by (simp add: bins ex_occupancy)
  from c have cnt: "count = [1, 0, 1]" by (simp add: bins ex_count_7)
  have "cells df 7 ! 0 = Fin 1" using cell by (simp add: bins occ cnt ex_feature_def)
  moreover have "cells df 7 ! 2 = Fin 2" using cell by (simp add: bins occ cnt ex_feature_def)
  ultimately show ?thesis unfolding compute_1d_TsGroup using r by simp
qed

theorem zero_occupancy_1d_witness:
  "\<exists>df. compute_1d_tuning_curves nap_TsGroup value_from_closest (TsGroup ex_group) ex_feature ex_ep 4 None = Inr df \<and>
        cells df 3 ! 1 = Fin 0 \<and> cells df 7 ! 1 = Fin 0"
proof -
  have n: "(0::int) \<le> 4" by simp
  have b: "case None :: (real \<times> real) option of None \<Rightarrow> True | Some mm \<Rightarrow> fst mm \<le> snd mm"
    by simp
  from zero_occupancy_1d[where mk = nap_TsGroup and vf = value_from_closest and f = ex_feature
      and ep = ex_ep and g = "TsGroup ex_group" and nb_bins = 4 and minmax = None, unfolded compute_1d_TsGroup as_tsgroup_TsGroup,
      OF ex_contract ex_distinct n b]
  obtain df bins occupancy where
    r: "compute_1d_on_group value_from_closest ex_group ex_feature ex_ep 4 None = Inr df"
    and e: "edges_1d ex_feature 4 None = Inr bins"
    and h: "histogram (fvalues ex_feature) bins = Inr occupancy"
    and z: "\<forall>j < length occupancy. occupancy ! j = 0 \<longrightarrow>
              list_all (\<lambda>(k, s). cells df k ! j = Fin 0) ex_group"
    by blast
  from e have bins: "bins = [Fin 0, Fin 1, Fin 2, Fin 3]" by (simp add: ex_edges)
  from h have occ: "occupancy = [2, 0, 1]" by (simp add: bins ex_occupancy)
  from z have "list_all (\<lambda>(k, s). cells df k ! 1 = Fin 0) ex_group" by (simp add: occ)
  then show ?thesis unfolding compute_1d_TsGroup using r by (simp add: ex_group_def)
qed

theorem occupancy_restriction_witness:
  "edges_1d ex_feature_out 2 None = Inr [Fin (1/2), Fin 7] \<and>
   histogram (fvalues ex_feature_out) [Fin (1/2), Fin 7] = Inr [2] \<and>
   histogram (fvalues (restrict ex_feature_out ex_ep)) [Fin (1/2), Fin 7] = Inr [1] \<and>
   [2 :: int] \<noteq> [1]"
proof -
  have n: "(2::int) \<le> 2" by simp
  from occupancy_restriction[where mk = nap_TsGroup and vf = value_from_closest
      and g = "TsGroup ex_group"
      and f = ex_feature_out and ep = ex_ep and nb_bins = 2 and minmax = None
      and tc = ex_tuning and b = True] n ex_feature_outside
  obtain bins occ_tc occ_mi where
    e: "edges_1d ex_feature_out 2 None = Inr bins"
    and h1: "histogram (fvalues ex_feature_out) bins = Inr occ_tc"
    and h2: "histogram (fvalues (restrict ex_feature_out ex_ep)) bins = Inr occ_mi"
    and s1: "sum_list occ_tc = int (length (samples ex_feature_out))"
    and s2: "sum_list occ_mi = int (length (samples (restrict ex_feature_out ex_ep)))"
    and neq: "occ_tc \<noteq> occ_mi"
    by blast
  have e': "edges_1d ex_feature_out 2 None = Inr [Fin (1/2), Fin 7]" by code_simp
  with e have bins: "bins = [Fin (1/2), Fin 7]" by simp
  have l1: "length occ_tc = 1" using histogram_length[OF h1] by (simp add: bins)
  have l2: "length occ_mi = 1" using histogram_length[OF h2] by (simp add: bins)
  have "length (samples ex_feature_out) = 2" by (simp add: ex_feature_out_def)
  with s1 l1 have o1: "occ_tc = [2]" by (cases occ_tc) auto
  have "length (samples (restrict ex_feature_out ex_ep)) = 1" by code_simp
  with s2 l2 have o2: "occ_mi = [1]" by (cases occ_mi) auto
  from e' h1 h2 neq show ?thesis by (simp add: bins o1 o2)
qed

lemma ex_returns_dict:
  "\<not> isl (compute_1d_tuning_curves nap_TsGroup value_from_closest (Dict ex_dict) ex_feature ex_ep 4 None)"
  by code_simp

theorem table_shape_1d_witness:
  "\<exists>df. compute_1d_tuning_curves nap_TsGroup value_from_closest (Dict ex_dict) ex_feature ex_ep 4 None
          = Inr df \<and>
        length (index df) = 3 \<and> index df ! 0 = Fin (1 / 2) \<and> index df ! 1 = Fin (3 / 2) \<and>
        index df ! 2 = Fin (5 / 2) \<and> columns df = [3, 7] \<and>
        length (cells df 3) = 3 \<and> length (cells df 7) = 3"
proof -
  obtain df where r:
    "compute_1d_tuning_curves nap_TsGroup value_from_closest (Dict ex_dict) ex_feature ex_ep 4 None
       = Inr df"
    using ex_returns_dict
    by (cases "compute_1d_tuning_curves nap_TsGroup value_from_closest (Dict ex_dict) ex_feature ex_ep 4 None")
       auto
  have g: "as_tsgroup nap_TsGroup (Dict ex_dict) ex_ep \<noteq> []" by (simp add: ex_dict_group)
  from table_shape_1d[OF _ g r] obtain bins where
    b: "edges_1d ex_feature 4 None = Inr bins"
    and rows: "length (index df) = nat (4 - 1)"
    and mid: "\<forall>j < nat (4 - 1). index df ! j = fadd (bins ! j) (fdiv (fsub (bins ! Suc j) (bins ! j)) (Fin 2))"
    and cols: "columns df = map fst (nap_TsGroup ex_dict ex_ep)"
    and cl: "list_all (\<lambda>k. length (cells df k) = nat (4 - 1)) (columns df)"
    by auto
  from b have bins: "bins = [Fin 0, Fin 1, Fin 2, Fin 3]" by (simp add: ex_edges)
  have m0: "index df ! 0 = Fin (1 / 2)" using mid by (simp add: bins fsub_def)
  have m1: "index df ! 1 = Fin (3 / 2)" using mid by (simp add: bins fsub_def)
  have m2: "index df ! 2 = Fin (5 / 2)" using mid by (simp add: bins fsub_def)
  have "nap_TsGroup ex_dict ex_ep = [(3, [1]), (7, [1/10, 19/10])]"
    using ex_dict_group by (simp add: as_tsgroup_def)
  with cols have c: "columns df = [3, 7]" by simp
  from r rows m0 m1 m2 c cl show ?thesis by simp
qed

text \<open>
  In the example the bin between the edges 1 and 2 has the occupancy count 0 and the
  count 0 for the member 7: the cell is 0, and the quotient of the two counts times the
  rate is not a number.
\<close>

theorem normalised_rate_1d_counterexample:
  "edges_1d ex_feature 4 None = Inr [Fin 0, Fin 1, Fin 2, Fin 3] \<and>
   histogram (fvalues ex_feature) [Fin 0, Fin 1, Fin 2, Fin 3] = Inr [2, 0, 1] \<and>
   histogram (value_from_closest [1/10, 19/10, 20] ex_feature ex_ep) [Fin 0, Fin 1, Fin 2, Fin 3]
     = Inr [1, 0, 1] \<and>
   (case compute_1d_tuning_curves nap_TsGroup value_from_closest (TsGroup ex_group) ex_feature ex_ep 4 None of
      Inl e \<Rightarrow> None | Inr df \<Rightarrow> Some (cells df 7 ! 1)) = Some (Fin 0) \<and>
   fmul (fdiv (Fin (real_of_int ([1, 0, 1] ! 1))) (Fin (real_of_int ([2, 0, 1] ! 1))))
        (Fin (rate ex_feature)) = NaN \<and>
   (case compute_1d_tuning_curves nap_TsGroup value_from_closest (TsGroup ex_group) ex_feature ex_ep 4 None of
      Inl e \<Rightarrow> None | Inr df \<Rightarrow> Some (cells df 7 ! 1))
     \<noteq> Some (fmul (fdiv (Fin (real_of_int ([1, 0, 1] ! 1))) (Fin (real_of_int ([2, 0, 1] ! 1))))
                  (Fin (rate ex_feature)))"
  by code_simp

section \<open>Edges and centres of the two-dimensional tuning curves\<close>


text \<open>
  For a group that is a \<^verbatim>\<open>TsGroup\<close>: a call of \<^verbatim>\<open>compute_2d_on_group\<close> on a well-formed feature of two columns, with
  at least one edge per axis, bounds in order and an aligner that gives a member as many
  values on one column as on the other, returns; and every call that returns gives a
  dictionary with the identifiers of the group as its keys, each with an array of
  \<open>nb_bins - 1\<close> rows of \<open>nb_bins - 1\<close> cells, and two arrays of \<open>nb_bins - 1\<close> bin centres,
  the first of the edges of the first column and the second of the edges of the second
  column: each entry is the code's \<open>edge + (next edge - edge) / 2\<close>, the midpoint of two
  finite consecutive edges.
\<close>

lemma result_shape_2d_of_group:
  "(length (channels f) = 2 \<and> 1 \<le> nb_bins \<and> wf_frame f \<and>
    (case minmax of None \<Rightarrow> True
     | Some (minx, maxx, miny, maxy) \<Rightarrow> minx \<le> maxx \<and> miny \<le> maxy) \<and>
    list_all (\<lambda>(n, s). length (vf s (channel_series f (snd (channels f ! 0))) ep)
                      = length (vf s (channel_series f (snd (channels f ! 1))) ep)) grp
    \<longrightarrow> (\<exists>tc xy. compute_2d_on_group vf grp f ep nb_bins minmax = Inr (tc, xy))) \<and>
   (\<forall>tc xy. compute_2d_on_group vf grp f ep nb_bins minmax = Inr (tc, xy) \<longrightarrow>
      1 \<le> nb_bins \<and>
      map fst tc = map fst grp \<and>
      list_all (\<lambda>(n, a). length a = nat (nb_bins - 1) \<and>
                          list_all (\<lambda>row. length row = nat (nb_bins - 1)) a) tc \<and>
      length xy = 2 \<and>
      list_all (\<lambda>c. length c = nat (nb_bins - 1)) xy \<and>
      (\<exists>binsx binsy.
         channel_edges (channel_series f (snd (channels f ! 0))) nb_bins minmax 0 = Inr binsx \<and>
         channel_edges (channel_series f (snd (channels f ! 1))) nb_bins minmax 1 = Inr binsy \<and>
         length binsx = nat nb_bins \<and> length binsy = nat nb_bins \<and>
         (\<forall>j < nat (nb_bins - 1).
            xy ! 0 ! j = fadd (binsx ! j) (fdiv (fsub (binsx ! Suc j) (binsx ! j)) (Fin 2)) \<and>
            xy ! 1 ! j = fadd (binsy ! j) (fdiv (fsub (binsy ! Suc j) (binsy ! j)) (Fin 2)) \<and>
            (\<forall>a b. binsx ! j = Fin a \<and> binsx ! Suc j = Fin b \<longrightarrow> xy ! 0 ! j = Fin ((a + b) / 2)) \<and>
            (\<forall>a b. binsy ! j = Fin a \<and> binsy ! Suc j = Fin b \<longrightarrow> xy ! 1 ! j = Fin ((a + b) / 2)))))"
proof -
  note base = result_shape_2d_base[of f nb_bins minmax vf ep grp]
  have cen: "\<exists>binsx binsy.
         channel_edges (channel_series f (snd (channels f ! 0))) nb_bins minmax 0 = Inr binsx \<and>
         channel_edges (channel_series f (snd (channels f ! 1))) nb_bins minmax 1 = Inr binsy \<and>
         length binsx = nat nb_bins \<and> length binsy = nat nb_bins \<and>
         (\<forall>j < nat (nb_bins - 1).
            xy ! 0 ! j = fadd (binsx ! j) (fdiv (fsub (binsx ! Suc j) (binsx ! j)) (Fin 2)) \<and>
            xy ! 1 ! j = fadd (binsy ! j) (fdiv (fsub (binsy ! Suc j) (binsy ! j)) (Fin 2)) \<and>
            (\<forall>a b. binsx ! j = Fin a \<and> binsx ! Suc j = Fin b \<longrightarrow> xy ! 0 ! j = Fin ((a + b) / 2)) \<and>
            (\<forall>a b. binsy ! j = Fin a \<and> binsy ! Suc j = Fin b \<longrightarrow> xy ! 1 ! j = Fin ((a + b) / 2)))"
    if r: "compute_2d_on_group vf grp f ep nb_bins minmax = Inr (tc, xy)" for tc xy
  proof -
    from compute_2d_Inr[OF r] obtain binsx binsy where
      ex: "channel_edges (channel_series f (snd (channels f ! 0))) nb_bins minmax 0 = Inr binsx"
      and ey: "channel_edges (channel_series f (snd (channels f ! 1))) nb_bins minmax 1 = Inr binsy"
      and xy: "xy = [bin_centers binsx, bin_centers binsy]"
      by blast
    have lx: "length binsx = nat nb_bins" using channel_edges_length[OF _ ex] by simp
    have ly: "length binsy = nat nb_bins" using channel_edges_length[OF _ ey] by simp
    have m: "xy ! 0 ! j = fadd (binsx ! j) (fdiv (fsub (binsx ! Suc j) (binsx ! j)) (Fin 2)) \<and>
            xy ! 1 ! j = fadd (binsy ! j) (fdiv (fsub (binsy ! Suc j) (binsy ! j)) (Fin 2))"
      if "j < nat (nb_bins - 1)" for j
    proof -
      from that have "Suc j < length binsx" "Suc j < length binsy" by (simp_all add: lx ly)
      then show ?thesis by (simp add: xy bin_centers_nth)
    qed
    have "(\<forall>a b. binsx ! j = Fin a \<and> binsx ! Suc j = Fin b \<longrightarrow> xy ! 0 ! j = Fin ((a + b) / 2)) \<and>
          (\<forall>a b. binsy ! j = Fin a \<and> binsy ! Suc j = Fin b \<longrightarrow> xy ! 1 ! j = Fin ((a + b) / 2))"
      if "j < nat (nb_bins - 1)" for j
      using m[OF that] by (auto simp: centre_Fin)
    with m ex ey lx ly show ?thesis by blast
  qed
  from base cen show ?thesis by blast
qed


section \<open>The two-dimensional tuning curves of a dictionary or a group\<close>

lemma compute_2d_TsGroup:
  "compute_2d_tuning_curves mk vf (TsGroup grp) f ep nb_bins minmax
     = compute_2d_on_group vf grp f ep nb_bins minmax"
  by (simp add: compute_2d_tuning_curves_def as_tsgroup_def)

text \<open>
  C5: \<^verbatim>\<open>compute_2d_tuning_curves\<close> fails with the module's own error (the
  \<open>RuntimeError\<close> that the specification calls InvalidDimension) exactly when the feature
  has not two columns. That is the only condition on the shape of the input under which
  the tuning-curve computations raise: with at least one edge per axis, bounds in order,
  a well-formed frame and an aligner that gives a member as many values on one column as
  on the other, the two-dimensional computation raises exactly when the feature has not
  two columns, and the one-dimensional computation never raises.
\<close>

theorem invalid_dimension_2d:
  "(compute_2d_tuning_curves mk vf g f ep nb_bins minmax = Inl RuntimeError
      \<longleftrightarrow> length (channels f) \<noteq> 2) \<and>
   (1 \<le> nb_bins \<and> wf_frame f \<and>
    (case minmax of None \<Rightarrow> True
     | Some (minx, maxx, miny, maxy) \<Rightarrow> minx \<le> maxx \<and> miny \<le> maxy) \<and>
    list_all (\<lambda>(n, s). length (vf s (channel_series f (snd (channels f ! 0))) ep)
                      = length (vf s (channel_series f (snd (channels f ! 1))) ep)) (as_tsgroup mk g ep)
    \<longrightarrow> ((\<exists>e. compute_2d_tuning_curves mk vf g f ep nb_bins minmax = Inl e)
           \<longleftrightarrow> length (channels f) \<noteq> 2)) \<and>
   (0 \<le> nb_bins \<and> (case minmax' of None \<Rightarrow> True | Some m \<Rightarrow> fst m \<le> snd m)
    \<longrightarrow> (\<exists>df. compute_1d_tuning_curves mk' vf' g' f' ep nb_bins minmax' = Inr df))"
  unfolding compute_2d_tuning_curves_def by (rule invalid_dimension_2d_of_group)

theorem invalid_dimension_2d_witness:
  "compute_2d_tuning_curves nap_TsGroup value_from_closest (TsGroup ex_group) ex_frame3 ex_ep 3 None = Inl RuntimeError \<and>
   length (channels ex_frame3) = 3 \<and>
   (\<nexists>e. compute_2d_tuning_curves nap_TsGroup value_from_closest (TsGroup ex_group) ex_frame ex_ep 3 None = Inl e) \<and>
   length (channels ex_frame) = 2 \<and>
   (\<exists>df. compute_1d_tuning_curves nap_TsGroup value_from_closest (TsGroup ex_group) ex_feature ex_ep 3 None = Inr df)"
proof -
  have l3: "length (channels ex_frame3) = 3" by (simp add: ex_frame3_def)
  have l2: "length (channels ex_frame) = 2" by (simp add: ex_frame_def)
  have n: "(1::int) \<le> 3" "(0::int) \<le> 3" by simp_all
  have b: "case None :: (real \<times> real \<times> real \<times> real) option of None \<Rightarrow> True
           | Some (minx, maxx, miny, maxy) \<Rightarrow> minx \<le> maxx \<and> miny \<le> maxy" by simp
  have b1: "case None :: (real \<times> real) option of None \<Rightarrow> True | Some m \<Rightarrow> fst m \<le> snd m"
    by simp
  have "compute_2d_on_group value_from_closest ex_group ex_frame3 ex_ep 3 None = Inl RuntimeError"
    using invalid_dimension_2d[where mk = nap_TsGroup and mk' = nap_TsGroup and vf = value_from_closest and g = "TsGroup ex_group" and f = ex_frame3
        and ep = ex_ep and nb_bins = 3 and minmax = None and vf' = value_from_closest
        and g' = "TsGroup ex_group" and f' = ex_feature and minmax' = None,
      unfolded compute_2d_TsGroup compute_1d_TsGroup as_tsgroup_TsGroup] l3 by simp
  moreover have "\<nexists>e. compute_2d_on_group value_from_closest ex_group ex_frame ex_ep 3 None = Inl e"
    using invalid_dimension_2d[where mk = nap_TsGroup and mk' = nap_TsGroup and vf = value_from_closest and g = "TsGroup ex_group" and f = ex_frame
        and ep = ex_ep and nb_bins = 3 and minmax = None and vf' = value_from_closest
        and g' = "TsGroup ex_group" and f' = ex_feature and minmax' = None,
      unfolded compute_2d_TsGroup compute_1d_TsGroup as_tsgroup_TsGroup] l2 ex_frame_wf ex_frame_aligned
    by simp
  moreover have "\<exists>df. compute_1d_on_group value_from_closest ex_group ex_feature ex_ep 3 None = Inr df"
    using invalid_dimension_2d[where mk = nap_TsGroup and mk' = nap_TsGroup and vf = value_from_closest and g = "TsGroup ex_group" and f = ex_frame
        and ep = ex_ep and nb_bins = 3 and minmax = None and vf' = value_from_closest
        and g' = "TsGroup ex_group" and f' = ex_feature and minmax' = None,
      unfolded compute_2d_TsGroup compute_1d_TsGroup as_tsgroup_TsGroup] by simp
  ultimately show ?thesis unfolding compute_2d_TsGroup compute_1d_TsGroup using l2 l3 by simp
qed



text \<open>
  C7: a call of \<^verbatim>\<open>compute_2d_tuning_curves\<close> on a well-formed feature of two columns, with
  at least one edge per axis, bounds in order and an aligner that gives a member as many
  values on one column as on the other, returns; and every call that returns gives a
  dictionary with the identifiers of the group as its keys, each with an array of
  \<open>nb_bins - 1\<close> rows of \<open>nb_bins - 1\<close> cells, and two arrays of \<open>nb_bins - 1\<close> bin centres,
  the first of the edges of the first column and the second of the edges of the second
  column: each entry is the code's \<open>edge + (next edge - edge) / 2\<close>, the midpoint of two
  finite consecutive edges.
\<close>

theorem result_shape_2d:
  "(length (channels f) = 2 \<and> 1 \<le> nb_bins \<and> wf_frame f \<and>
    (case minmax of None \<Rightarrow> True
     | Some (minx, maxx, miny, maxy) \<Rightarrow> minx \<le> maxx \<and> miny \<le> maxy) \<and>
    list_all (\<lambda>(n, s). length (vf s (channel_series f (snd (channels f ! 0))) ep)
                      = length (vf s (channel_series f (snd (channels f ! 1))) ep)) (as_tsgroup mk g ep)
    \<longrightarrow> (\<exists>tc xy. compute_2d_tuning_curves mk vf g f ep nb_bins minmax = Inr (tc, xy))) \<and>
   (\<forall>tc xy. compute_2d_tuning_curves mk vf g f ep nb_bins minmax = Inr (tc, xy) \<longrightarrow>
      1 \<le> nb_bins \<and>
      map fst tc = map fst (as_tsgroup mk g ep) \<and>
      list_all (\<lambda>(n, a). length a = nat (nb_bins - 1) \<and>
                          list_all (\<lambda>row. length row = nat (nb_bins - 1)) a) tc \<and>
      length xy = 2 \<and>
      list_all (\<lambda>c. length c = nat (nb_bins - 1)) xy \<and>
      (\<exists>binsx binsy.
         channel_edges (channel_series f (snd (channels f ! 0))) nb_bins minmax 0 = Inr binsx \<and>
         channel_edges (channel_series f (snd (channels f ! 1))) nb_bins minmax 1 = Inr binsy \<and>
         length binsx = nat nb_bins \<and> length binsy = nat nb_bins \<and>
         (\<forall>j < nat (nb_bins - 1).
            xy ! 0 ! j = fadd (binsx ! j) (fdiv (fsub (binsx ! Suc j) (binsx ! j)) (Fin 2)) \<and>
            xy ! 1 ! j = fadd (binsy ! j) (fdiv (fsub (binsy ! Suc j) (binsy ! j)) (Fin 2)) \<and>
            (\<forall>a b. binsx ! j = Fin a \<and> binsx ! Suc j = Fin b \<longrightarrow> xy ! 0 ! j = Fin ((a + b) / 2)) \<and>
            (\<forall>a b. binsy ! j = Fin a \<and> binsy ! Suc j = Fin b \<longrightarrow> xy ! 1 ! j = Fin ((a + b) / 2)))))"
  unfolding compute_2d_tuning_curves_def by (rule result_shape_2d_of_group)

theorem result_shape_2d_witness:
  "\<exists>tc xy. compute_2d_tuning_curves nap_TsGroup value_from_closest (TsGroup ex_group) ex_frame ex_ep 3 None = Inr (tc, xy) \<and>
     map fst tc = [3, 7] \<and>
     list_all (\<lambda>(n, a). length a = 2 \<and> list_all (\<lambda>row. length row = 2) a) tc \<and>
     length xy = 2 \<and> list_all (\<lambda>c. length c = 2) xy \<and>
     xy ! 0 ! 0 = Fin (3/4) \<and> xy ! 0 ! 1 = Fin (9/4) \<and>
     xy ! 1 ! 0 = Fin (5/4) \<and> xy ! 1 ! 1 = Fin (7/4)"
proof -
  note th = result_shape_2d[where mk = nap_TsGroup and vf = value_from_closest and g = "TsGroup ex_group" and f = ex_frame
      and ep = ex_ep and nb_bins = 3 and minmax = None,
      unfolded compute_2d_TsGroup compute_1d_TsGroup as_tsgroup_TsGroup]
  have l: "length (channels ex_frame) = 2" by (simp add: ex_frame_def)
  from th l ex_frame_wf ex_frame_aligned obtain tc xy where
    r: "compute_2d_on_group value_from_closest ex_group ex_frame ex_ep 3 None = Inr (tc, xy)"
    by auto
  with th have s: "map fst tc = map fst ex_group \<and>
      list_all (\<lambda>(n, a). length a = nat (3 - 1) \<and>
                          list_all (\<lambda>row. length row = nat (3 - 1)) a) tc \<and>
      length xy = 2 \<and> list_all (\<lambda>c. length c = nat (3 - 1)) xy"
    by blast
  from th r obtain binsx binsy where
    ex: "channel_edges (channel_series ex_frame (snd (channels ex_frame ! 0))) 3 None 0 = Inr binsx"
    and ey: "channel_edges (channel_series ex_frame (snd (channels ex_frame ! 1))) 3 None 1 = Inr binsy"
    and m: "\<forall>j < nat (3 - 1).
            xy ! 0 ! j = fadd (binsx ! j) (fdiv (fsub (binsx ! Suc j) (binsx ! j)) (Fin 2)) \<and>
            xy ! 1 ! j = fadd (binsy ! j) (fdiv (fsub (binsy ! Suc j) (binsy ! j)) (Fin 2))"
    by blast
  from ex have bx: "binsx = [Fin 0, Fin (3/2), Fin 3]" unfolding ex_edges_x by simp
  from ey have by': "binsy = [Fin 1, Fin (3/2), Fin 2]" unfolding ex_edges_y by simp
  from m have "xy ! 0 ! 0 = Fin (3/4) \<and> xy ! 0 ! 1 = Fin (9/4) \<and>
               xy ! 1 ! 0 = Fin (5/4) \<and> xy ! 1 ! 1 = Fin (7/4)"
    by (simp add: bx by' fsub_def)
  with r s show ?thesis unfolding compute_2d_TsGroup compute_1d_TsGroup by (simp add: ex_group_def)
qed



end
